theory Spec2Isabelle
  imports Main
begin

section \<open>JavaScript values as script.js meets them\<close>

text \<open>
  Every value the script inspects comes out of \<^verbatim>\<open>response.json()\<close>, so it is a JSON value.
  A number is carried as the text JavaScript's number-to-string conversion gives for it
  (\<open>JNum ''21.4''\<close>); the only numbers whose text is \<open>''0''\<close> are \<open>0\<close> and \<open>-0\<close>, the falsy
  ones. An object is the list of its own properties in enumeration order, with distinct keys.
  \<open>None\<close> of type \<open>json option\<close> is \<^verbatim>\<open>undefined\<close>. Strings are byte strings in UTF-8,
  non-ASCII characters of the source written as their bytes.
\<close>

datatype json =
    JNull
  | JBool bool
  | JNum string
  | JStr string
  | JArr "json list"
  | JObj "(string \<times> json) list"

datatype js_error = JsError (message: string)

text \<open>A throw is \<open>Inl\<close>; \<open>and_then\<close> runs the next step when nothing was thrown.\<close>

definition and_then :: "'e + 'a \<Rightarrow> ('a \<Rightarrow> 'e + 'b) \<Rightarrow> 'e + 'b" where
  "and_then r f = (case r of Inl e \<Rightarrow> Inl e | Inr x \<Rightarrow> f x)"

text \<open>The results of a list of steps in order, or the first throw among them.\<close>

fun collect :: "('e + 'a) list \<Rightarrow> 'e + 'a list" where
  "collect [] = Inr []"
| "collect (r # rs) =
     (case r of
        Inl e \<Rightarrow> Inl e
      | Inr x \<Rightarrow> (case collect rs of Inl e \<Rightarrow> Inl e | Inr xs \<Rightarrow> Inr (x # xs)))"

text \<open>Truthiness, as \<^verbatim>\<open>if (x)\<close>, \<^verbatim>\<open>x ? a : b\<close> and \<^verbatim>\<open>x || y\<close> test it.\<close>

fun truthy :: "json option \<Rightarrow> bool" where
  "truthy None = False"
| "truthy (Some JNull) = False"
| "truthy (Some (JBool b)) = b"
| "truthy (Some (JNum s)) = (s \<noteq> ''0'')"
| "truthy (Some (JStr s)) = (s \<noteq> [])"
| "truthy (Some (JArr xs)) = True"
| "truthy (Some (JObj fs)) = True"

fun join_comma :: "string list \<Rightarrow> string" where
  "join_comma [] = []"
| "join_comma [s] = s"
| "join_comma (s # t # ss) = s @ '','' @ join_comma (t # ss)"

text \<open>
  The errors the engine itself throws. Their wording is the engine's (here V8's); no
  statement below depends on it.
\<close>

definition single_quoted :: "string \<Rightarrow> string" where
  "single_quoted s = [CHR 0x27] @ s @ [CHR 0x27]"

definition cannot_read :: "string \<Rightarrow> string \<Rightarrow> js_error" where
  "cannot_read base k =
     JsError (''Cannot read properties of '' @ base @ '' (reading '' @ single_quoted k @ '')'')"

definition cannot_convert :: js_error where
  "cannot_convert = JsError ''Cannot convert object to primitive value''"

definition not_a_function :: "string \<Rightarrow> js_error" where
  "not_a_function what = JsError (what @ '' is not a function'')"

text \<open>
  String conversion (\<^verbatim>\<open>ToString\<close>), as a template literal \<^verbatim>\<open>${x}\<close>, the \<^verbatim>\<open>Error\<close>
  constructor and the \<^verbatim>\<open>textContent\<close> setter apply it. An array joins the conversions of its
  elements with commas, \<^verbatim>\<open>null\<close> elements giving the empty string. An object goes through
  its \<^verbatim>\<open>toString\<close>: the inherited one answers \<^verbatim>\<open>[object Object]\<close>; an own property of that
  name, which in a JSON value is never a function, hides it, and since \<^verbatim>\<open>valueOf\<close> does
  not give a primitive either, the conversion throws a \<^verbatim>\<open>TypeError\<close>.
\<close>

fun to_string :: "json \<Rightarrow> js_error + string" where
  "to_string JNull = Inr ''null''"
| "to_string (JBool b) = Inr (if b then ''true'' else ''false'')"
| "to_string (JNum s) = Inr s"
| "to_string (JStr s) = Inr s"
| "to_string (JArr xs) =
     (case collect (map (\<lambda>x. if x = JNull then Inr [] else to_string x) xs) of
        Inl e \<Rightarrow> Inl e
      | Inr ss \<Rightarrow> Inr (join_comma ss))"
| "to_string (JObj fs) =
     (if map_of fs ''toString'' = None then Inr ''[object Object]'' else Inl cannot_convert)"

definition js_String :: "json option \<Rightarrow> js_error + string" where
  "js_String v = (case v of None \<Rightarrow> Inr ''undefined'' | Some x \<Rightarrow> to_string x)"

text \<open>
  \<^verbatim>\<open>x.k\<close> for the property names the script reads (\<^verbatim>\<open>message\<close>, \<^verbatim>\<open>detail\<close>,
  \<^verbatim>\<open>temperature\<close>, \<^verbatim>\<open>name\<close>, ...): none of them is defined by a built-in prototype, so a
  boolean, a number, a string and an array answer \<^verbatim>\<open>undefined\<close>. \<open>field\<close> is the read on a
  value that is not \<^verbatim>\<open>null\<close>; \<open>read_prop\<close> throws on \<^verbatim>\<open>null\<close> and \<^verbatim>\<open>undefined\<close>.
\<close>

fun field :: "json \<Rightarrow> string \<Rightarrow> json option" where
  "field (JObj fs) k = map_of fs k"
| "field v k = None"

definition read_prop :: "json option \<Rightarrow> string \<Rightarrow> js_error + json option" where
  "read_prop x k =
     (case x of
        None \<Rightarrow> Inl (cannot_read ''undefined'' k)
      | Some v \<Rightarrow> if v = JNull then Inl (cannot_read ''null'' k) else Inr (field v k))"

text \<open>
  The first UTF-16 code unit of a string, which is what \<^verbatim>\<open>s[0]\<close> is. A character of one,
  two or three bytes in UTF-8 is one code unit. A character of four bytes is two code units,
  and the first of them, a lead surrogate, has no UTF-8 encoding of its own: it is written in
  the three-byte pattern.
\<close>

definition lead_surrogate :: "string \<Rightarrow> string" where
  "lead_surrogate s =
     (let n0 = (of_char (s ! 0) :: nat); n1 = (of_char (s ! 1) :: nat);
          n2 = (of_char (s ! 2) :: nat); n3 = (of_char (s ! 3) :: nat);
          cp = (n0 mod 8) * 262144 + (n1 mod 64) * 4096 + (n2 mod 64) * 64 + n3 mod 64;
          hs = 55296 + (cp - 65536) div 1024
      in [char_of (224 + hs div 4096), char_of (128 + (hs div 64) mod 64),
          char_of (128 + hs mod 64)])"

definition first_unit :: "string \<Rightarrow> string" where
  "first_unit s =
     (case s of
        [] \<Rightarrow> []
      | b # bs \<Rightarrow>
          if (of_char b :: nat) < 192 then [b]
          else if (of_char b :: nat) < 224 then take 2 s
          else if (of_char b :: nat) < 240 then take 3 s
          else if length s < 4 then s
          else lead_surrogate s)"

section \<open>Requests and responses\<close>

record request =
  req_method :: string
  req_url :: string

text \<open>
  What the environment answers to one \<^verbatim>\<open>fetch\<close>: the promise rejects (\<open>Inl\<close>), or it resolves
  to a response with its \<^verbatim>\<open>ok\<close> flag and what \<^verbatim>\<open>response.json()\<close> settles to (\<open>Inl\<close> when the
  body is not JSON).
\<close>

record response =
  ok :: bool
  json_body :: "js_error + json"

type_synonym fetch_outcome = "js_error + response"

definition API_URL :: string where
  "API_URL = ''http://127.0.0.1:8000/api''"

text \<open>\<^verbatim>\<open>fetch(url)\<close> with no second argument is a GET of that URL.\<close>

definition fetch_get :: "string \<Rightarrow> request" where
  "fetch_get url = \<lparr>req_method = ''GET'', req_url = url\<rparr>"

section \<open>The weather elements of the modal\<close>

text \<open>
  Markup is the list of the pieces of a template literal, in order: the literal text of the
  template (\<open>Text\<close>), an interpolated string (\<open>Interp\<close>), and the interpolations whose text
  is the engine's locale formatting, kept symbolic: a \<^verbatim>\<open>Date\<close> made from a value, a number
  given by its text, and the separator an array puts between its elements. The white space
  between the elements of a template is left out; the empty list is the empty string.

  Assigned to \<^verbatim>\<open>innerHTML\<close>, markup is parsed. An interpolated string without \<^verbatim>\<open><\<close> is
  text and leaves the structure of the template as it is written; one with \<^verbatim>\<open><\<close> may open a
  tag or a comment and change it. The locale formats of dates and numbers hold no \<^verbatim>\<open><\<close>.
\<close>

datatype fragment =
    Text string
  | Interp string
  | LocaleDate "json option"
  | LocaleNumber string
  | ListSeparator

type_synonym markup = "fragment list"

fun inert_fragment :: "fragment \<Rightarrow> bool" where
  "inert_fragment (Interp s) = (CHR 0x3C \<notin> set s)"
| "inert_fragment f = True"

definition inert :: "markup \<Rightarrow> bool" where
  "inert m = list_all inert_fragment m"

record weather_status_element =
  spinner_hidden :: "bool option"

record button =
  disabled :: bool
  textContent :: string
  click_listeners :: "string list"

text \<open>
  The five lookups of \<^verbatim>\<open>fetchWeatherForCountry\<close>: \<open>None\<close> is \<^verbatim>\<open>null\<close>. \<open>spinner_hidden\<close> is
  the \<^verbatim>\<open>.spinner\<close> inside \<^verbatim>\<open>#weather-status\<close> (\<open>None\<close> when there is none), with whether its
  class list has \<^verbatim>\<open>hidden\<close>. A click listener of the button is the country code its closure
  holds: it runs \<^verbatim>\<open>fetchWeatherForCountry(code, true)\<close>.
\<close>

record document =
  weather_status :: "weather_status_element option"
  weather_status_text :: "string option"
  weather_details :: "markup option"
  consultar_clima_btn :: "button option"

definition spinnerElement :: "document \<Rightarrow> bool option" where
  "spinnerElement d = (case weather_status d of None \<Rightarrow> None | Some w \<Rightarrow> spinner_hidden w)"

definition elements_missing :: "document \<Rightarrow> bool" where
  "elements_missing d \<longleftrightarrow>
     weather_status d = None \<or> weather_status_text d = None \<or> weather_details d = None
     \<or> consultar_clima_btn d = None \<or> spinnerElement d = None"

definition set_spinner_hidden :: "bool \<Rightarrow> document \<Rightarrow> document" where
  "set_spinner_hidden h d =
     d\<lparr>weather_status := map_option (\<lambda>w. w\<lparr>spinner_hidden := Some h\<rparr>) (weather_status d)\<rparr>"

definition set_button :: "bool \<Rightarrow> string \<Rightarrow> document \<Rightarrow> document" where
  "set_button dis txt d =
     d\<lparr>consultar_clima_btn :=
         map_option (\<lambda>b. b\<lparr>disabled := dis, textContent := txt\<rparr>) (consultar_clima_btn d)\<rparr>"

section \<open>fetchWeatherForCountry\<close>

definition weather_request :: "string \<Rightarrow> request" where
  "weather_request cca3 = fetch_get (API_URL @ ''/weather/'' @ cca3)"

text \<open>Lines 259-263: the loading state, shown before the request goes out.\<close>

definition show_loading :: "document \<Rightarrow> document" where
  "show_loading d =
     (set_button True ''Actualizando...'' (set_spinner_hidden False d))
       \<lparr>weather_status_text := Some ''Cargando clima...'', weather_details := Some []\<rparr>"

definition degree_C :: string where
  "degree_C = [CHR 0xC2, CHR 0xB0] @ ''C''"

text \<open>
  \<^verbatim>\<open>new Date(x).toLocaleString('es-CR')\<close>: the constructor converts an object or an array
  to a primitive, which throws where the string conversion throws; the formatting itself
  does not throw.
\<close>

definition locale_date :: "json option \<Rightarrow> js_error + fragment" where
  "locale_date x =
     (case x of
        None \<Rightarrow> Inr (LocaleDate None)
      | Some v \<Rightarrow> and_then (to_string v) (\<lambda>s. Inr (LocaleDate x)))"

text \<open>The template of lines 279-284 with its four interpolations filled in.\<close>

definition weather_template :: "string \<Rightarrow> string \<Rightarrow> fragment \<Rightarrow> fragment \<Rightarrow> markup" where
  "weather_template temperature windspeed time last_updated =
     [Text ''<p><strong>Temperatura:</strong> '', Interp temperature,
      Text (degree_C @ ''</p>''),
      Text ''<p><strong>Velocidad del viento:</strong> '', Interp windspeed,
      Text '' m/s</p>'',
      Text (''<p><strong>Hora de la medici'' @ [CHR 0xC3, CHR 0xB3] @ ''n:</strong> ''),
      time, Text ''</p>'',
      Text (''<p class='' @ [CHR 0x22] @ ''last-updated-text'' @ [CHR 0x22] @ ''>''
            @ [CHR 0xC3, CHR 0x9A] @ ''ltima actualizaci''
            @ [CHR 0xC3, CHR 0xB3] @ ''n: ''),
      last_updated, Text ''</p>'']"

text \<open>
  The evaluation of that template literal: the interpolations are converted from left to
  right, and the first conversion that throws ends it.
\<close>

definition weather_markup ::
  "json option \<Rightarrow> json option \<Rightarrow> json option \<Rightarrow> json option \<Rightarrow> js_error + markup" where
  "weather_markup temperature windspeed time last_updated =
     and_then (js_String temperature) (\<lambda>t.
     and_then (js_String windspeed) (\<lambda>w.
     and_then (locale_date time) (\<lambda>measured.
     and_then (locale_date last_updated) (\<lambda>updated.
       Inr (weather_template t w measured updated)))))"

definition NA :: "json option" where
  "NA = Some (JStr ''N/A'')"

text \<open>
  Lines 267-270: a response that is not ok throws. Reading the body may throw; reading
  \<^verbatim>\<open>detail\<close> of a \<^verbatim>\<open>null\<close> body throws; the \<^verbatim>\<open>Error\<close> constructor converts a truthy
  \<^verbatim>\<open>detail\<close> to a string, which may throw; otherwise the \<^verbatim>\<open>Error\<close> made is thrown.
\<close>

definition not_ok_error :: "js_error + json \<Rightarrow> js_error" where
  "not_ok_error body =
     (case body of
        Inl e \<Rightarrow> e
      | Inr errorData \<Rightarrow>
          (case read_prop (Some errorData) ''detail'' of
             Inl e \<Rightarrow> e
           | Inr detail \<Rightarrow>
               if truthy detail
               then (case js_String detail of Inl e \<Rightarrow> e | Inr s \<Rightarrow> JsError s)
               else JsError ''No se pudo obtener el clima.''))"

text \<open>
  Lines 272-288: what the three branches assign to the status text and to the details;
  \<open>Inl\<close> is a throw. The \<^verbatim>\<open>textContent\<close> setter of line 275 converts the message to a
  string before it writes. Line 278 writes the status text before the template of line 279
  is evaluated; when that throws, the \<^verbatim>\<open>catch\<close> writes the status text again, so the throw
  leaves nothing of line 278. Once \<^verbatim>\<open>weatherData.message\<close> has been read,
  \<^verbatim>\<open>weatherData\<close> is not \<^verbatim>\<open>null\<close> and the later reads are \<open>field\<close>.
\<close>

definition render_weather :: "json \<Rightarrow> js_error + string \<times> markup" where
  "render_weather weatherData =
     (case read_prop (Some weatherData) ''message'' of
        Inl e \<Rightarrow> Inl e
      | Inr msg \<Rightarrow>
          if truthy msg then and_then (js_String msg) (\<lambda>s. Inr (s, []))
          else if field weatherData ''temperature'' \<noteq> NA
                  \<and> field weatherData ''windspeed'' \<noteq> NA
          then and_then
                 (weather_markup (field weatherData ''temperature'')
                    (field weatherData ''windspeed'') (field weatherData ''time'')
                    (field weatherData ''last_updated''))
                 (\<lambda>m. Inr (''Clima actual:'', m))
          else Inr (''Datos de clima no disponibles o incompletos.'', []))"

text \<open>
  The \<^verbatim>\<open>try\<close> block from the settled \<^verbatim>\<open>fetch\<close> on: a rejected \<^verbatim>\<open>fetch\<close> throws at the
  \<^verbatim>\<open>await\<close> of line 266.
\<close>

definition try_block :: "fetch_outcome \<Rightarrow> js_error + string \<times> markup" where
  "try_block out =
     (case out of
        Inl e \<Rightarrow> Inl e
      | Inr r \<Rightarrow>
          if \<not> ok r then Inl (not_ok_error (json_body r))
          else (case json_body r of
                  Inl e \<Rightarrow> Inl e
                | Inr weatherData \<Rightarrow> render_weather weatherData))"

text \<open>Lines 290-299: \<^verbatim>\<open>catch\<close> and \<^verbatim>\<open>finally\<close>, on the elements the call looked up.\<close>

definition settle_weather :: "document \<Rightarrow> fetch_outcome \<Rightarrow> document" where
  "settle_weather d out =
     (let d1 = (case try_block out of
                  Inr (txt, details) \<Rightarrow>
                    d\<lparr>weather_status_text := Some txt, weather_details := Some details\<rparr>
                | Inl error \<Rightarrow>
                    d\<lparr>weather_status_text := Some (''Error al cargar clima: '' @ message error),
                      weather_details := Some []\<rparr>)
      in set_button False ''Consultar Clima'' (set_spinner_hidden True d1))"

text \<open>
  One call, run from its first line to the end of \<^verbatim>\<open>finally\<close>, given what its \<^verbatim>\<open>fetch\<close>
  settles to: the five elements it looked up as it leaves them (\<open>weather_details\<close> being the
  markup it assigned) and the requests it issued. The parameter \<open>force\<close> is declared at line
  249 and read nowhere in the body.
\<close>

definition fetchWeatherForCountry ::
  "document \<Rightarrow> string \<Rightarrow> bool \<Rightarrow> fetch_outcome \<Rightarrow> document \<times> request list" where
  "fetchWeatherForCountry d cca3 force out =
     (if elements_missing d then (d, [])
      else (settle_weather (show_loading d) out, [weather_request cca3]))"

text \<open>The weather elements as the template of lines 217-226 creates them.\<close>

definition placeholder_comment :: string where
  "placeholder_comment =
     ''<!-- Aqu'' @ [CHR 0xC3, CHR 0xAD] @ '' se cargar'' @ [CHR 0xC3, CHR 0xA1]
     @ ''n los datos del clima -->''"

definition weather_widget :: document where
  "weather_widget =
     \<lparr>weather_status = Some \<lparr>spinner_hidden = Some True\<rparr>,
      weather_status_text = Some ''Cargando clima...'',
      weather_details = Some [Text placeholder_comment],
      consultar_clima_btn =
        Some \<lparr>disabled = False, textContent = ''Consultar Clima'', click_listeners = []\<rparr>\<rparr>"

section \<open>The modal, the interval timer and the script's two variables\<close>

text \<open>
  The state below is the part of the page and of the script that \<^verbatim>\<open>openModal\<close>,
  \<^verbatim>\<open>fetchWeatherForCountry\<close>, \<^verbatim>\<open>closeModal\<close> and lines 98-102 of \<^verbatim>\<open>switchView\<close> read and
  write: the variables \<^verbatim>\<open>weatherUpdateIntervalId\<close> and \<^verbatim>\<open>currentCountryCodeInModal\<close>, the
  browser's table of active repeating timers, the modal with its two buttons, and the weather
  elements. The views, the navigation links, the country grids and the message dialog are
  outside it; the code that handles them reaches this state only by calling \<^verbatim>\<open>openModal\<close> and
  \<^verbatim>\<open>closeModal\<close>. The static page index.html is not modelled: it is taken to hold the
  elements the script looks up at its start, and the weather elements only inside
  \<^verbatim>\<open>#modal-body\<close>. Country codes are strings.

  A repeating timer is its callback and its delay in milliseconds; the only callback the
  script registers is \<^verbatim>\<open>() => fetchWeatherForCountry(countryCode)\<close>, kept as the code.
  An \<^verbatim>\<open>async\<close> function that is waiting for a \<^verbatim>\<open>fetch\<close> is a continuation: the line it
  waits at and the variables of its closure. \<open>generation\<close> counts the assignments to
  \<^verbatim>\<open>modalBody.innerHTML\<close>: each one replaces the weather elements, and a continuation that
  holds elements of an earlier generation writes to detached nodes.

  \<open>elements\<close> is what the five lookups of \<^verbatim>\<open>fetchWeatherForCountry\<close> find. While every
  markup assigned since the modal body was last replaced is inert, \<open>intact\<close>, the modal body
  has the structure of the template, the elements found are those the template names, and
  they are the ones a waiting call of the same generation holds. Once markup that is not inert
  has been assigned, what the lookups find is for the browser's HTML parser to say, and
  nothing is taken of it: each later write to the page asks \<open>answers\<close>, an arbitrary sequence
  of answers, for what the lookups find afterwards.
\<close>

record interval =
  callback_code :: string
  delay :: nat

datatype continuation =
    OpenModal_202 string bool
  | FetchWeather_266 string nat bool

record client =
  weatherUpdateIntervalId :: "nat option"
  currentCountryCodeInModal :: "string option"
  intervals :: "(nat \<times> interval) list"
  intervals_created :: nat
  modal_container_hidden :: bool
  modal_body :: markup
  elements :: document
  generation :: nat
  modal_add_hidden :: bool
  modal_delete_hidden :: bool
  modal_add_onclick :: "json option"
  modal_delete_onclick :: "string option"
  suspended :: "continuation list"
  sent :: "request list"
  intact :: bool
  answers :: "nat \<Rightarrow> document"
  consulted :: nat

text \<open>
  \<^verbatim>\<open>setInterval\<close> hands out a fresh identifier greater than zero; \<^verbatim>\<open>clearInterval\<close> removes
  the timer with that identifier, if there is one.
\<close>

definition setInterval :: "string \<Rightarrow> nat \<Rightarrow> client \<Rightarrow> nat \<times> client" where
  "setInterval code ms c =
     (let i = Suc (intervals_created c)
      in (i, c\<lparr>intervals := intervals c @ [(i, \<lparr>callback_code = code, delay = ms\<rparr>)],
               intervals_created := i\<rparr>))"

definition clearInterval :: "nat \<Rightarrow> client \<Rightarrow> client" where
  "clearInterval i c = c\<lparr>intervals := filter (\<lambda>t. fst t \<noteq> i) (intervals c)\<rparr>"

text \<open>
  Lines 98-101, 185-188 and 304-307, the same four lines in three functions:
  \<^verbatim>\<open>if (weatherUpdateIntervalId)\<close> is false for \<^verbatim>\<open>null\<close> and for \<open>0\<close>.
\<close>

definition clear_weather_interval :: "client \<Rightarrow> client" where
  "clear_weather_interval c =
     (case weatherUpdateIntervalId c of
        None \<Rightarrow> c
      | Some i \<Rightarrow>
          if i \<noteq> 0 then (clearInterval i c)\<lparr>weatherUpdateIntervalId := None\<rparr> else c)"

text \<open>
  \<^verbatim>\<open>switchView\<close>: its lines 85-97 work on the views, the navigation links and the grids,
  which are outside this state; lines 98-102 are what is left.
\<close>

definition switchView :: "string \<Rightarrow> client \<Rightarrow> client" where
  "switchView viewName c = (clear_weather_interval c)\<lparr>currentCountryCodeInModal := None\<rparr>"

definition closeModal :: "client \<Rightarrow> client" where
  "closeModal c =
     (clear_weather_interval (c\<lparr>modal_container_hidden := True\<rparr>))
       \<lparr>currentCountryCodeInModal := None\<rparr>"

definition no_weather_elements :: document where
  "no_weather_elements =
     \<lparr>weather_status = None, weather_status_text = None, weather_details = None,
      consultar_clima_btn = None\<rparr>"

text \<open>The next answer of the parser, for a page whose structure is no longer the template's.\<close>

definition consult :: "client \<Rightarrow> client" where
  "consult c =
     c\<lparr>elements := answers c (consulted c), consulted := Suc (consulted c), intact := False\<rparr>"

text \<open>
  A write to the elements found, with the markup it assigns to an \<^verbatim>\<open>innerHTML\<close> among them
  (\<open>[]\<close> when it assigns the empty string): \<open>d\<close> is what the elements become when the
  page is intact and the markup inert.
\<close>

definition write_elements :: "markup \<Rightarrow> document \<Rightarrow> client \<Rightarrow> client" where
  "write_elements assigned d c =
     (if intact c \<and> inert assigned then c\<lparr>elements := d\<rparr> else consult c)"

text \<open>
  \<^verbatim>\<open>modalBody.innerHTML = ...\<close>: \<open>els\<close> is what the lookups find in the new body when its
  markup is inert.
\<close>

definition set_modal_body :: "markup \<Rightarrow> document \<Rightarrow> client \<Rightarrow> client" where
  "set_modal_body m els c =
     (if inert m
      then c\<lparr>modal_body := m, elements := els, generation := Suc (generation c),
             intact := True\<rparr>
      else consult (c\<lparr>modal_body := m, generation := Suc (generation c)\<rparr>))"

text \<open>Line 241.\<close>

definition start_weather_interval :: "string \<Rightarrow> client \<Rightarrow> client" where
  "start_weather_interval countryCode c =
     (case setInterval countryCode 60000 c of
        (i, c') \<Rightarrow> c'\<lparr>weatherUpdateIntervalId := Some i\<rparr>)"

text \<open>
  A call of \<^verbatim>\<open>fetchWeatherForCountry\<close> up to its \<^verbatim>\<open>await\<close>. \<open>awaited\<close> says that the caller is
  line 240 of \<^verbatim>\<open>openModal\<close>, which goes on to line 241 once the call has finished; the button's
  listener and the timer's callback drop the promise.
\<close>

definition call_fetchWeather :: "string \<Rightarrow> bool \<Rightarrow> bool \<Rightarrow> client \<Rightarrow> client" where
  "call_fetchWeather cca3 force awaited c =
     (if elements_missing (elements c)
      then (if awaited then start_weather_interval cca3 c else c)
      else (write_elements [] (show_loading (elements c)) c)
             \<lparr>sent := sent c @ [weather_request cca3],
              suspended := suspended c @ [FetchWeather_266 cca3 (generation c) awaited]\<rparr>)"

text \<open>Lines 182-202 of \<^verbatim>\<open>openModal\<close>, up to the \<^verbatim>\<open>await\<close> of the country request.\<close>

definition loading_details :: markup where
  "loading_details =
     [Text (''<p class='' @ [CHR 0x22] @ ''loading-text'' @ [CHR 0x22]
            @ ''>Cargando detalles...</p>'')]"

definition country_request :: "string \<Rightarrow> request" where
  "country_request countryCode = fetch_get (API_URL @ ''/country/'' @ countryCode)"

definition call_openModal :: "string \<Rightarrow> bool \<Rightarrow> client \<Rightarrow> client" where
  "call_openModal countryCode isFromSavedView c =
     (let c1 = set_modal_body loading_details no_weather_elements c;
          c2 = (clear_weather_interval c1)\<lparr>currentCountryCodeInModal := Some countryCode\<rparr>;
          c3 = (if isFromSavedView
                then c2\<lparr>modal_add_hidden := True, modal_delete_hidden := False,
                        modal_delete_onclick := Some countryCode\<rparr>
                else c2\<lparr>modal_add_hidden := False, modal_delete_hidden := True\<rparr>)
      in c3\<lparr>modal_container_hidden := False,
             sent := sent c3 @ [country_request countryCode],
             suspended := suspended c3 @ [OpenModal_202 countryCode isFromSavedView]\<rparr>)"

text \<open>
  Lines 203-227: the country response and the template of the details. \<open>Inl\<close> is a throw, which
  the \<^verbatim>\<open>catch\<close> of line 242 takes. \<^verbatim>\<open>x[0]\<close> and \<^verbatim>\<open>Object.values(x)[0]\<close> are only reached for a
  truthy \<^verbatim>\<open>x\<close>.
\<close>

fun first_index :: "json \<Rightarrow> json option" where
  "first_index (JArr xs) = (case xs of [] \<Rightarrow> None | x # _ \<Rightarrow> Some x)"
| "first_index (JStr s) = (if s = [] then None else Some (JStr (first_unit s)))"
| "first_index (JObj fs) = map_of fs ''0''"
| "first_index v = None"

fun first_value :: "json \<Rightarrow> json option" where
  "first_value (JObj fs) = (case fs of [] \<Rightarrow> None | kv # _ \<Rightarrow> Some (snd kv))"
| "first_value v = first_index v"

definition if_truthy :: "json option \<Rightarrow> (json \<Rightarrow> 'a) \<Rightarrow> 'a \<Rightarrow> 'a" where
  "if_truthy x f d = (case x of None \<Rightarrow> d | Some v \<Rightarrow> if truthy x then f v else d)"

fun separated :: "markup list \<Rightarrow> markup" where
  "separated [] = []"
| "separated [m] = m"
| "separated (m # n # ms) = m @ [ListSeparator] @ separated (n # ms)"

text \<open>
  \<^verbatim>\<open>x.toLocaleString('es-CR')\<close> for a value that is not \<^verbatim>\<open>null\<close>, as the pieces of the
  string it gives. A number is formatted for the locale; a string answers itself; a boolean
  and an object go through \<^verbatim>\<open>toString\<close>; an array formats its elements, \<^verbatim>\<open>null\<close> ones
  giving the empty string, with the locale's separator between them. An own property
  \<^verbatim>\<open>toLocaleString\<close> or \<^verbatim>\<open>toString\<close> of an object hides the method, and the call throws.
\<close>

fun locale_string :: "json \<Rightarrow> js_error + markup" where
  "locale_string JNull = Inl (cannot_read ''null'' ''toLocaleString'')"
| "locale_string (JBool b) = Inr [Interp (if b then ''true'' else ''false'')]"
| "locale_string (JNum s) = Inr [LocaleNumber s]"
| "locale_string (JStr s) = Inr [Interp s]"
| "locale_string (JArr xs) =
     (case collect (map (\<lambda>x. if x = JNull then Inr [] else locale_string x) xs) of
        Inl e \<Rightarrow> Inl e
      | Inr ms \<Rightarrow> Inr (separated ms))"
| "locale_string (JObj fs) =
     (if map_of fs ''toLocaleString'' \<noteq> None then Inl (not_a_function ''toLocaleString'')
      else if map_of fs ''toString'' \<noteq> None then Inl (not_a_function ''toString'')
      else Inr [Interp ''[object Object]''])"

definition toLocaleString :: "json option \<Rightarrow> js_error + markup" where
  "toLocaleString x =
     (case x of
        None \<Rightarrow> Inl (cannot_read ''undefined'' ''toLocaleString'')
      | Some v \<Rightarrow> locale_string v)"

definition quoted :: "string \<Rightarrow> string" where
  "quoted s = [CHR 0x22] @ s @ [CHR 0x22]"

definition weather_info :: markup where
  "weather_info =
     [Text (''<div class='' @ quoted ''weather-info'' @ ''><h3>Clima Actual</h3>''),
      Text (''<p id='' @ quoted ''weather-status'' @ ''><span class='' @ quoted ''spinner hidden''
            @ ''></span> <span id='' @ quoted ''weather-status-text''
            @ ''>Cargando clima...</span></p>''),
      Text (''<div id='' @ quoted ''weather-details'' @ ''>'' @ placeholder_comment @ ''</div>''),
      Text (''<button id='' @ quoted ''consultar-clima-btn'' @ '' class=''
            @ quoted ''btn-secondary weather-btn'' @ ''>Consultar Clima</button></div>'')]"

text \<open>
  Lines 206-208 read the capital, the currency and the language; the template literal of
  lines 210-227 then evaluates and converts its interpolations from left to right.
\<close>

definition country_markup :: "json \<Rightarrow> js_error + markup" where
  "country_markup country =
     and_then (read_prop (Some country) ''capital'') (\<lambda>cap.
     and_then (if_truthy (field country ''currencies'')
                 (\<lambda>v. read_prop (first_value v) ''name'') (Inr NA)) (\<lambda>currency.
     and_then (read_prop (field country ''name'') ''common'') (\<lambda>common.
     and_then (js_String common) (\<lambda>common_text.
     and_then (js_String (if_truthy cap first_index NA)) (\<lambda>capital_text.
     and_then (toLocaleString (field country ''population'')) (\<lambda>population.
     and_then (js_String (field country ''region'')) (\<lambda>region_text.
     and_then (js_String currency) (\<lambda>currency_text.
     and_then (js_String (if_truthy (field country ''languages'') first_value NA))
       (\<lambda>language_text.
       Inr ([Text ''<h2>'', Interp common_text, Text ''</h2>'',
             Text ''<p><strong>Capital:</strong> '', Interp capital_text, Text ''</p>'',
             Text (''<p><strong>Poblaci'' @ [CHR 0xC3, CHR 0xB3] @ ''n:</strong> '')]
            @ population
            @ [Text ''</p>'',
               Text (''<p><strong>Regi'' @ [CHR 0xC3, CHR 0xB3] @ ''n:</strong> ''),
               Interp region_text, Text ''</p>'',
               Text ''<p><strong>Moneda:</strong> '', Interp currency_text, Text ''</p>'',
               Text ''<p><strong>Idioma Principal:</strong> '', Interp language_text,
               Text ''</p>'']
            @ weather_info))))))))))"

definition country_details :: "fetch_outcome \<Rightarrow> js_error + json \<times> markup" where
  "country_details out =
     (case out of
        Inl e \<Rightarrow> Inl e
      | Inr r \<Rightarrow>
          if \<not> ok r
          then Inl (JsError (''No se pudieron cargar los detalles del pa'' @ [CHR 0xC3, CHR 0xAD]
                             @ ''s.''))
          else and_then (json_body r) (\<lambda>country.
               and_then (country_markup country) (\<lambda>m. Inr (country, m))))"

definition error_details :: "js_error \<Rightarrow> markup" where
  "error_details error =
     [Text (''<p class='' @ quoted ''error-text'' @ ''>Error al cargar el pa''
            @ [CHR 0xC3, CHR 0xAD] @ ''s: ''),
      Interp (message error), Text ''</p>'']"

definition add_click_listener :: "string \<Rightarrow> document \<Rightarrow> document" where
  "add_click_listener countryCode d =
     d\<lparr>consultar_clima_btn :=
         map_option (\<lambda>b. b\<lparr>click_listeners := click_listeners b @ [countryCode]\<rparr>)
           (consultar_clima_btn d)\<rparr>"

text \<open>
  \<^verbatim>\<open>openModal\<close> from line 203 to its next \<^verbatim>\<open>await\<close> (line 240, inside
  \<^verbatim>\<open>fetchWeatherForCountry\<close>), or through the \<^verbatim>\<open>catch\<close> of lines 242-245 to its end. Line 236
  adds the listener to the button that line 234 has just found, whichever that is.
\<close>

definition openModal_203 :: "string \<Rightarrow> bool \<Rightarrow> fetch_outcome \<Rightarrow> client \<Rightarrow> client" where
  "openModal_203 countryCode isFromSavedView out c =
     (case country_details out of
        Inl error \<Rightarrow> set_modal_body (error_details error) no_weather_elements c
      | Inr (country, m) \<Rightarrow>
          (let c1 = set_modal_body m weather_widget c;
               c2 = (if \<not> isFromSavedView then c1\<lparr>modal_add_onclick := Some country\<rparr> else c1);
               c3 = c2\<lparr>elements := add_click_listener countryCode (elements c2)\<rparr>
           in call_fetchWeather countryCode False True c3))"

text \<open>The markup that the call assigns to the details once its \<^verbatim>\<open>fetch\<close> has settled.\<close>

definition assigned_details :: "fetch_outcome \<Rightarrow> markup" where
  "assigned_details out = (case try_block out of Inr (txt, details) \<Rightarrow> details | Inl e \<Rightarrow> [])"

text \<open>
  \<^verbatim>\<open>fetchWeatherForCountry\<close> from its \<^verbatim>\<open>await\<close> to the end of \<^verbatim>\<open>finally\<close>, then line 241 when
  \<^verbatim>\<open>openModal\<close> was waiting for it.
\<close>

definition fetchWeather_267 :: "string \<Rightarrow> nat \<Rightarrow> bool \<Rightarrow> fetch_outcome \<Rightarrow> client \<Rightarrow> client" where
  "fetchWeather_267 cca3 g awaited out c =
     (let c1 = (if g = generation c
                then write_elements (assigned_details out) (settle_weather (elements c) out) c
                else c)
      in if awaited then start_weather_interval cca3 c1 else c1)"

fun resume :: "continuation \<Rightarrow> fetch_outcome \<Rightarrow> client \<Rightarrow> client" where
  "resume (OpenModal_202 countryCode isFromSavedView) out c =
     openModal_203 countryCode isFromSavedView out c"
| "resume (FetchWeather_266 cca3 g awaited) out c = fetchWeather_267 cca3 g awaited out c"

section \<open>The event loop\<close>

text \<open>
  JavaScript runs one handler at a time, each to its next \<^verbatim>\<open>await\<close>. An event is a click on
  a country card (\<^verbatim>\<open>openModal(cca3, source === 'local')\<close>, line 177), a click that closes the
  modal, a change of view, a click on the weather button, a tick of a timer, or the settling
  of the \<^verbatim>\<open>fetch\<close> that the \<open>n\<close>-th waiting continuation waits for.
\<close>

datatype event =
    CardClick string bool
  | ModalClose
  | ViewSwitch string
  | ConsultarClick
  | IntervalTick nat
  | Settle nat fetch_outcome

definition click_consultar :: "client \<Rightarrow> client" where
  "click_consultar c =
     (case consultar_clima_btn (elements c) of
        None \<Rightarrow> c
      | Some b \<Rightarrow>
          if disabled b then c
          else fold (\<lambda>code. call_fetchWeather code True False) (click_listeners b) c)"

definition drop_nth :: "nat \<Rightarrow> 'a list \<Rightarrow> 'a list" where
  "drop_nth n xs = take n xs @ drop (Suc n) xs"

fun step :: "client \<Rightarrow> event \<Rightarrow> client" where
  "step c (CardClick cca3 isFromSavedView) = call_openModal cca3 isFromSavedView c"
| "step c ModalClose = closeModal c"
| "step c (ViewSwitch viewName) = switchView viewName c"
| "step c ConsultarClick = click_consultar c"
| "step c (IntervalTick i) =
     (case map_of (intervals c) i of
        None \<Rightarrow> c
      | Some t \<Rightarrow> call_fetchWeather (callback_code t) False False c)"
| "step c (Settle n out) =
     (if n < length (suspended c)
      then resume (suspended c ! n) out (c\<lparr>suspended := drop_nth n (suspended c)\<rparr>)
      else c)"

definition run :: "client \<Rightarrow> event list \<Rightarrow> client" where
  "run c evs = foldl step c evs"

text \<open>
  \<^verbatim>\<open>openModal\<close> run with nothing in between: the call, the country response, and the weather
  response when a weather request went out.
\<close>

definition openModal ::
  "string \<Rightarrow> bool \<Rightarrow> fetch_outcome \<Rightarrow> fetch_outcome \<Rightarrow> client \<Rightarrow> client" where
  "openModal countryCode isFromSavedView country_out weather_out c =
     (let n = length (suspended c)
      in run c [CardClick countryCode isFromSavedView, Settle n country_out,
                Settle n weather_out])"

text \<open>
  The state when the script has started: no timer, nothing waiting, the modal and its two
  buttons taken to be hidden in the static page. Its sequence of answers is one among all; a statement
  about every browser replaces it.
\<close>

definition initial :: client where
  "initial =
     \<lparr>weatherUpdateIntervalId = None, currentCountryCodeInModal = None, intervals = [],
      intervals_created = 0, modal_container_hidden = True, modal_body = [],
      elements = no_weather_elements, generation = 0, modal_add_hidden = True,
      modal_delete_hidden = True, modal_add_onclick = None, modal_delete_onclick = None,
      suspended = [], sent = [], intact = True, answers = (\<lambda>n. no_weather_elements),
      consulted = 0\<rparr>"

section \<open>The weather pipeline of the server\<close>

text \<open>
  The code of the server (main.py and pipeline/flow.py) is absent from src/, which holds only
  its caller script.js. Its store, loader and cache gateway are modelled from the
  specification, sections 3, 4.1, 4.4, 5 and 7.
\<close>

text \<open>Modelled from the spec: CountryCode (3), the key of all weather entities.\<close>

type_synonym country_code = string

text \<open>Modelled from the spec: a timestamp (3), in whole seconds of the local clock.\<close>

type_synonym timestamp = int

text \<open>
  Modelled from the spec: a measurement of a cleaned record (3), numeric or unavailable; the
  number is a whole number of some unit.
\<close>

datatype reading = Unavailable | Numeric int

text \<open>Modelled from the spec: the validity flag of a cleaned record (3).\<close>

datatype validity = Valid | PartiallyUnavailable

text \<open>Modelled from the spec: the Validator's rejection reasons (4.3).\<close>

datatype rejection = AllFieldsUnavailable | InvalidTimestamp

text \<open>Modelled from the spec: the error taxonomy (7).\<close>

datatype failure = UpstreamUnavailable | ValidationRejected rejection | StoreFailure

text \<open>Modelled from the spec: the fields the Validator/Cleaner hands to the Loader (4.3).\<close>

record cleaned_fields =
  temperature :: reading
  windspeed :: reading
  measurement_time :: timestamp
  validity :: validity

text \<open>Modelled from the spec: WeatherCleanedRecord (3), one row per country.\<close>

record cleaned_record = cleaned_fields +
  last_updated :: timestamp

text \<open>
  Modelled from the spec: WeatherRawRecord (3), appended and never changed. The payload is
  kept as text; the upstream status, which the Loader's contract does not receive, is left
  out.
\<close>

record raw_record =
  raw_country_code :: country_code
  fetched_at :: timestamp
  raw_payload :: string

text \<open>Modelled from the spec: the Store (2, 6), raw log and cleaned table.\<close>

record store =
  raw :: "raw_record list"
  cleaned :: "country_code \<rightharpoonup> cleaned_record"

text \<open>
  Modelled from the spec: the write of a cleaned record (3, 4.1, 4.4). A record that is
  written carries the local time of the write as its \<open>last_updated\<close>. No write may take
  \<open>last_updated\<close> back, so a load at a local time before the stored one writes nothing; a
  load whose measurement time is older than or equal to the stored one is accepted only if the
  local clock is strictly newer than the stored \<open>last_updated\<close>. The result is the record
  the table holds afterwards.
\<close>

definition upsert_cleaned ::
  "cleaned_record option \<Rightarrow> cleaned_fields \<Rightarrow> timestamp \<Rightarrow> cleaned_record" where
  "upsert_cleaned stored f now =
     (case stored of
        None \<Rightarrow> cleaned_fields.extend f \<lparr>last_updated = now\<rparr>
      | Some r \<Rightarrow>
          if now < last_updated r then r
          else if measurement_time f \<le> measurement_time r \<and> \<not> last_updated r < now then r
          else cleaned_fields.extend f \<lparr>last_updated = now\<rparr>)"

text \<open>
  Modelled from the spec: the Loader (4.4). It always appends the raw record; on acceptance
  it upserts the cleaned record; on rejection (\<open>None\<close>) it leaves the cleaned table alone.
\<close>

definition load ::
  "country_code \<Rightarrow> string \<Rightarrow> cleaned_fields option \<Rightarrow> timestamp \<Rightarrow> store \<Rightarrow> store" where
  "load code payload accepted now st =
     st\<lparr>raw := raw st @ [\<lparr>raw_country_code = code, fetched_at = now, raw_payload = payload\<rparr>],
        cleaned := (case accepted of
                      None \<Rightarrow> cleaned st
                    | Some f \<Rightarrow> (cleaned st)(code \<mapsto> upsert_cleaned (cleaned st code) f now))\<rparr>"

text \<open>Modelled from the spec: one load as data, and a sequence of loads in order.\<close>

record load_call =
  load_code :: country_code
  load_payload :: string
  load_fields :: "cleaned_fields option"
  load_now :: timestamp

definition load_all :: "store \<Rightarrow> load_call list \<Rightarrow> store" where
  "load_all st ls =
     foldl (\<lambda>s l. load (load_code l) (load_payload l) (load_fields l) (load_now l) s) st ls"

text \<open>Modelled from the spec: the freshness policy (4.1), TTL = 60 seconds.\<close>

definition TTL :: int where
  "TTL = 60"

definition fresh :: "timestamp \<Rightarrow> cleaned_record option \<Rightarrow> bool" where
  "fresh now stored = (case stored of None \<Rightarrow> False | Some r \<Rightarrow> now - last_updated r < TTL)"

text \<open>
  Modelled from the spec: what a caller of \<open>get\<close> receives (4.1, 7): a cleaned record, a
  stale record with the failure reported alongside, or a failure.
\<close>

datatype outcome =
    Record cleaned_record
  | StaleFallback cleaned_record failure
  | Failure failure

text \<open>
  Modelled from the spec: what an extraction comes back with (4.2, 4.3): an upstream error,
  or a payload with the Validator's verdict on it.
\<close>

datatype extraction =
    UpstreamError
  | Payload string "rejection + cleaned_fields"

text \<open>
  Modelled from the spec: the CacheGateway (4.1, 5). \<open>pending\<close> is the single-flight
  coordinator, a map from country code to the callers attached to the pending result.
  \<open>extractor_calls\<close> and \<open>resolved\<close> log the Extractor invocations started and finished;
  \<open>replies\<close> logs what each caller received, for which code.
\<close>

type_synonym caller = nat

record gateway =
  gw_store :: store
  pending :: "country_code \<rightharpoonup> caller list"
  extractor_calls :: "country_code list"
  resolved :: "country_code list"
  replies :: "(caller \<times> country_code \<times> outcome) list"

text \<open>
  Modelled from the spec: \<open>get(code, force)\<close> by one caller at local time \<open>now\<close> (4.1). A
  caller that finds an extraction in flight attaches to it, whatever \<open>force\<close> says; a fresh
  record is returned at once unless \<open>force\<close>; otherwise an extraction starts.
\<close>

definition get :: "country_code \<Rightarrow> caller \<Rightarrow> bool \<Rightarrow> timestamp \<Rightarrow> gateway \<Rightarrow> gateway" where
  "get code who force now g =
     (case pending g code of
        Some callers \<Rightarrow> g\<lparr>pending := (pending g)(code \<mapsto> callers @ [who])\<rparr>
      | None \<Rightarrow>
          (case cleaned (gw_store g) code of
             Some r \<Rightarrow>
               if \<not> force \<and> fresh now (Some r)
               then g\<lparr>replies := replies g @ [(who, code, Record r)]\<rparr>
               else g\<lparr>pending := (pending g)(code \<mapsto> [who]),
                      extractor_calls := extractor_calls g @ [code]\<rparr>
           | None \<Rightarrow>
               g\<lparr>pending := (pending g)(code \<mapsto> [who]),
                 extractor_calls := extractor_calls g @ [code]\<rparr>))"

text \<open>
  Modelled from the spec: the best-effort degrade of a failed fetch (4.1, 7).
\<close>

definition degrade :: "cleaned_record option \<Rightarrow> failure \<Rightarrow> outcome" where
  "degrade previous f = (case previous of Some r \<Rightarrow> StaleFallback r f | None \<Rightarrow> Failure f)"

text \<open>
  Modelled from the spec: the extraction in flight for \<open>code\<close> comes back at local time \<open>now\<close>
  (4.1). The Loader writes once, every attached caller receives the same outcome, and the
  coordinator's entry is released. With no extraction in flight there is nothing to resolve.
\<close>

definition resolve :: "country_code \<Rightarrow> extraction \<Rightarrow> timestamp \<Rightarrow> gateway \<Rightarrow> gateway" where
  "resolve code result now g =
     (case pending g code of
        None \<Rightarrow> g
      | Some callers \<Rightarrow>
          (let previous = cleaned (gw_store g) code;
               st = (case result of
                       UpstreamError \<Rightarrow> gw_store g
                     | Payload p (Inl reason) \<Rightarrow> load code p None now (gw_store g)
                     | Payload p (Inr f) \<Rightarrow> load code p (Some f) now (gw_store g));
               out = (case result of
                        UpstreamError \<Rightarrow> degrade previous UpstreamUnavailable
                      | Payload p (Inl reason) \<Rightarrow> degrade previous (ValidationRejected reason)
                      | Payload p (Inr f) \<Rightarrow> Record (upsert_cleaned previous f now))
           in g\<lparr>gw_store := st,
                pending := (pending g)(code := None),
                resolved := resolved g @ [code],
                replies := replies g @ map (\<lambda>who. (who, code, out)) callers\<rparr>))"

text \<open>Modelled from the spec: the calls and completions reaching the gateway, in any order.\<close>

datatype gw_event =
    Get country_code caller bool timestamp
  | Resolve country_code extraction timestamp

fun gw_step :: "gateway \<Rightarrow> gw_event \<Rightarrow> gateway" where
  "gw_step g (Get code who force now) = get code who force now g"
| "gw_step g (Resolve code result now) = resolve code result now g"

definition gw_run :: "gateway \<Rightarrow> gw_event list \<Rightarrow> gateway" where
  "gw_run g evs = foldl gw_step g evs"

text \<open>Modelled from the spec: a gateway over a store, with nothing in flight.\<close>

definition idle :: "store \<Rightarrow> gateway" where
  "idle st = \<lparr>gw_store = st, pending = Map.empty, extractor_calls = [], resolved = [],
              replies = []\<rparr>"

text \<open>Modelled from the spec: the extractions of \<open>code\<close> in flight (5), started and not finished.\<close>

definition in_flight :: "gateway \<Rightarrow> country_code \<Rightarrow> nat" where
  "in_flight g code = count_list (extractor_calls g) code - count_list (resolved g) code"

text \<open>Modelled from the spec: the country an event of the gateway is about.\<close>

fun event_code :: "gw_event \<Rightarrow> country_code" where
  "event_code (Get code who force now) = code"
| "event_code (Resolve code result now) = code"

text \<open>
  Modelled from the spec: the callers of \<open>get(code)\<close> in a sequence of events, in order (8,
  the N concurrent calls).
\<close>

fun callers_of :: "country_code \<Rightarrow> gw_event list \<Rightarrow> caller list" where
  "callers_of code [] = []"
| "callers_of code (Get code' who force now # evs) =
     (if code' = code then who # callers_of code evs else callers_of code evs)"
| "callers_of code (Resolve code' result now # evs) = callers_of code evs"

text \<open>
  Modelled from the spec: concurrent calls (8). Every event on \<open>code\<close> in the sequence is a
  \<open>get\<close> issued while the stored record \<open>stored\<close> of that country is not fresh; events
  on other countries are free.
\<close>

fun concurrent_gets :: "country_code \<Rightarrow> cleaned_record option \<Rightarrow> gw_event list \<Rightarrow> bool" where
  "concurrent_gets code stored [] = True"
| "concurrent_gets code stored (Get code' who force now # evs) =
     ((code' = code \<longrightarrow> \<not> fresh now stored) \<and> concurrent_gets code stored evs)"
| "concurrent_gets code stored (Resolve code' result now # evs) =
     (code' \<noteq> code \<and> concurrent_gets code stored evs)"

text \<open>Modelled from the spec: what the callers of \<open>get(code)\<close> have received, in order.\<close>

definition replies_for :: "country_code \<Rightarrow> gateway \<Rightarrow> (caller \<times> outcome) list" where
  "replies_for code g =
     map (\<lambda>r. (fst r, snd (snd r))) (filter (\<lambda>r. fst (snd r) = code) (replies g))"

section \<open>Invariants and concrete inputs\<close>


text \<open>
  Every active timer is the one \<^verbatim>\<open>weatherUpdateIntervalId\<close> names, and there is at most one.
\<close>

definition tracked :: "client \<Rightarrow> bool" where
  "tracked c \<longleftrightarrow>
     length (intervals c) \<le> 1 \<and> weatherUpdateIntervalId c \<noteq> Some 0
     \<and> list_all (\<lambda>t. weatherUpdateIntervalId c = Some (fst t)) (intervals c)"

text \<open>
  Modelled from the spec: the gateway's logs agree with its coordinator (5). A country has
  one more extraction started than finished exactly when its entry is held.
\<close>

definition balanced :: "gateway \<Rightarrow> bool" where
  "balanced g \<longleftrightarrow>
     (\<forall>code. count_list (extractor_calls g) code =
        count_list (resolved g) code + (if pending g code = None then 0 else 1))"

text \<open>The state in which \<^verbatim>\<open>openModal\<close> reaches line 240, the details loaded.\<close>

definition at_line_240 :: "string \<Rightarrow> bool \<Rightarrow> json \<Rightarrow> markup \<Rightarrow> client \<Rightarrow> client" where
  "at_line_240 code saved country m c =
     (let c1 = set_modal_body m weather_widget
                 ((call_openModal code saved c)\<lparr>suspended := suspended c\<rparr>);
          c2 = (if \<not> saved then c1\<lparr>modal_add_onclick := Some country\<rparr> else c1)
      in c2\<lparr>elements := add_click_listener code (elements c2)\<rparr>)"

definition ok_json :: "json \<Rightarrow> fetch_outcome" where
  "ok_json v = Inr \<lparr>ok = True, json_body = Inr v\<rparr>"

definition costa_rica :: json where
  "costa_rica =
     JObj [(''name'', JObj [(''common'', JStr ''Costa Rica'')]), (''cca3'', JStr ''CRI''),
           (''capital'', JArr [JStr ''San Jose'']), (''population'', JNum ''5094114''),
           (''region'', JStr ''Americas'')]"

definition panama :: json where
  "panama =
     JObj [(''name'', JObj [(''common'', JStr ''Panama'')]), (''cca3'', JStr ''PAN''),
           (''capital'', JArr [JStr ''Panama City'']), (''population'', JNum ''4314768''),
           (''region'', JStr ''Americas'')]"

definition sunny :: json where
  "sunny =
     JObj [(''temperature'', JNum ''21.4''), (''windspeed'', JNum ''3.2''),
           (''time'', JStr ''2025-07-01T12:00''),
           (''last_updated'', JStr ''2025-07-01T12:00:30'')]"

definition no_data :: json where
  "no_data = JObj [(''message'', JStr ''No hay datos de clima para este pais.'')]"

definition wind_missing :: json where
  "wind_missing =
     JObj [(''temperature'', JNum ''21.4''), (''windspeed'', JStr ''N/A''),
           (''time'', JStr ''2025-07-01T12:00''),
           (''last_updated'', JStr ''2025-07-01T12:00:30'')]"

text \<open>A 200 body whose \<^verbatim>\<open>message\<close> field is there and empty, beside the measurements.\<close>

definition empty_message :: json where
  "empty_message =
     JObj [(''message'', JStr []), (''temperature'', JNum ''21.4''), (''windspeed'', JNum ''3.2''),
           (''time'', JStr ''2025-07-01T12:00''),
           (''last_updated'', JStr ''2025-07-01T12:00:30'')]"

text \<open>A 200 body whose \<^verbatim>\<open>message\<close> is an object with an own property \<^verbatim>\<open>toString\<close>.\<close>

definition object_message :: json where
  "object_message = JObj [(''message'', JObj [(''toString'', JNum ''1'')])]"

text \<open>
  A 404 with a \<^verbatim>\<open>detail\<close>, a 422 whose \<^verbatim>\<open>detail\<close> is an object with an own property
  \<^verbatim>\<open>toString\<close>, and a 500 whose body is the plain text of the server.
\<close>

definition object_detail :: response where
  "object_detail =
     \<lparr>ok = False, json_body = Inr (JObj [(''detail'', JObj [(''toString'', JNum ''1'')])])\<rparr>"


definition not_found :: response where
  "not_found =
     \<lparr>ok = False, json_body = Inr (JObj [(''detail'', JStr ''Pais no encontrado'')])\<rparr>"

definition plain_text_500 :: response where
  "plain_text_500 =
     \<lparr>ok = False, json_body = Inl (JsError ''Unexpected token I in JSON at position 0'')\<rparr>"

text \<open>The modal of Costa Rica, opened from the start state and loaded with nothing in between.\<close>

definition opened :: client where
  "opened = openModal ''CRI'' False (ok_json costa_rica) (ok_json sunny) initial"



text \<open>
  Two openings that overlap: the card of Costa Rica is clicked, the modal is closed while the
  country request is still out, the card of Panama is clicked, and then the four responses
  arrive, Costa Rica's first.
\<close>

definition overlapping_opens :: "event list" where
  "overlapping_opens =
     [CardClick ''CRI'' False, ModalClose, CardClick ''PAN'' False,
      Settle 0 (ok_json costa_rica), Settle 1 (ok_json sunny),
      Settle 0 (ok_json panama), Settle 0 (ok_json sunny)]"

text \<open>A store with one cleaned record, and two later loads whose measurements are older.\<close>

definition stored_example :: store where
  "stored_example =
     \<lparr>raw = [],
      cleaned = [''CRI'' \<mapsto> \<lparr>temperature = Numeric 25, windspeed = Numeric 3,
                            measurement_time = 1000, validity = Valid, last_updated = 1010\<rparr>]\<rparr>"

definition older_loads :: "load_call list" where
  "older_loads =
     [\<lparr>load_code = ''CRI'', load_payload = ''{}'',
       load_fields = Some \<lparr>temperature = Numeric 24, windspeed = Unavailable,
                            measurement_time = 900, validity = PartiallyUnavailable\<rparr>,
       load_now = 1005\<rparr>,
      \<lparr>load_code = ''CRI'', load_payload = ''{}'',
       load_fields = Some \<lparr>temperature = Numeric 23, windspeed = Numeric 2,
                            measurement_time = 950, validity = Valid\<rparr>,
       load_now = 1100\<rparr>]"

text \<open>
  Three callers asking for Costa Rica while its record is stale, a caller for Panama among
  them.
\<close>

definition burst :: "gw_event list" where
  "burst =
     [Get ''CRI'' 1 False 2000, Get ''PAN'' 9 False 2000, Get ''CRI'' 2 True 2001,
      Get ''CRI'' 3 False 2002]"

section \<open>The weather elements under one call\<close>

lemma widget_present: "\<not> elements_missing (add_click_listener code weather_widget)"
  by (simp add: elements_missing_def add_click_listener_def weather_widget_def spinnerElement_def)

lemma weather_widget_present: "\<not> elements_missing weather_widget"
  by (simp add: elements_missing_def weather_widget_def spinnerElement_def)

lemma elements_present_loading: "\<not> elements_missing d \<Longrightarrow> \<not> elements_missing (show_loading d)"
  by (auto simp: show_loading_def set_button_def set_spinner_hidden_def elements_missing_def
      spinnerElement_def)

lemma elements_present_settled:
  "\<not> elements_missing d \<Longrightarrow> \<not> elements_missing (settle_weather d out)"
  by (auto simp: settle_weather_def set_button_def set_spinner_hidden_def elements_missing_def
      spinnerElement_def Let_def split: sum.splits prod.splits)

lemma settle_weather_texts:
  "weather_status_text (settle_weather d out) =
     (case try_block out of
        Inr (txt, details) \<Rightarrow> Some txt
      | Inl error \<Rightarrow> Some (''Error al cargar clima: '' @ message error))"
  "weather_details (settle_weather d out) =
     (case try_block out of Inr (txt, details) \<Rightarrow> Some details | Inl error \<Rightarrow> Some [])"
  by (auto simp: settle_weather_def set_button_def set_spinner_hidden_def Let_def
      split: sum.splits prod.splits)

lemma settle_weather_button:
  "consultar_clima_btn (settle_weather d out) =
     map_option (\<lambda>b. b\<lparr>disabled := False, textContent := ''Consultar Clima''\<rparr>)
       (consultar_clima_btn d)"
  by (auto simp: settle_weather_def set_button_def set_spinner_hidden_def Let_def
      split: sum.splits prod.splits)

lemma settle_weather_spinner:
  "\<not> elements_missing d \<Longrightarrow> spinnerElement (settle_weather d out) = Some True"
  by (auto simp: settle_weather_def set_button_def set_spinner_hidden_def elements_missing_def
      spinnerElement_def Let_def split: sum.splits prod.splits)

lemma show_loading_button:
  "consultar_clima_btn (show_loading d) =
     map_option (\<lambda>b. b\<lparr>disabled := True, textContent := ''Actualizando...''\<rparr>)
       (consultar_clima_btn d)"
  by (simp add: show_loading_def set_button_def set_spinner_hidden_def)

lemma fetchWeather_texts:
  "\<not> elements_missing d \<Longrightarrow>
   weather_status_text (fst (fetchWeatherForCountry d cca3 force out)) =
     (case try_block out of
        Inr (txt, details) \<Rightarrow> Some txt
      | Inl error \<Rightarrow> Some (''Error al cargar clima: '' @ message error))"
  "\<not> elements_missing d \<Longrightarrow>
   weather_details (fst (fetchWeatherForCountry d cca3 force out)) =
     (case try_block out of Inr (txt, details) \<Rightarrow> Some details | Inl error \<Rightarrow> Some [])"
  by (simp_all add: fetchWeatherForCountry_def settle_weather_texts)

lemma try_block_ok:
  "ok r \<Longrightarrow> json_body r = Inr wd \<Longrightarrow> try_block (Inr r) = render_weather wd"
  by (simp add: try_block_def)

lemma try_block_not_ok:
  "\<not> ok r \<Longrightarrow> try_block (Inr r) = Inl (not_ok_error (json_body r))"
  by (simp add: try_block_def)

lemma force_is_ignored:
  "fetchWeatherForCountry d cca3 True out = fetchWeatherForCountry d cca3 False out"
  by (simp add: fetchWeatherForCountry_def)

text \<open>
  C5, as the specification states it, fails: a 200 body that contains a \<^verbatim>\<open>message\<close> field
  whose value is the empty string is not shown as a message; the measurements beside it are
  rendered instead.
\<close>

theorem message_field_counterexample:
  "field empty_message ''message'' = Some (JStr [])
   \<and> weather_status_text
        (fst (fetchWeatherForCountry weather_widget ''CRI'' False (ok_json empty_message)))
       = Some ''Clima actual:''
   \<and> weather_details
        (fst (fetchWeatherForCountry weather_widget ''CRI'' False (ok_json empty_message)))
       = Some (weather_template ''21.4'' ''3.2'' (LocaleDate (Some (JStr ''2025-07-01T12:00'')))
                 (LocaleDate (Some (JStr ''2025-07-01T12:00:30''))))
   \<and> weather_details
        (fst (fetchWeatherForCountry weather_widget ''CRI'' False (ok_json empty_message)))
       \<noteq> Some []"
  by (simp add: fetchWeather_texts weather_widget_present try_block_def render_weather_def
      read_prop_def ok_json_def empty_message_def NA_def weather_markup_def js_String_def
      locale_date_def and_then_def weather_template_def)

text \<open>
  C5, amended: for every 200 response whose body is JSON other than \<^verbatim>\<open>null\<close>, with the weather
  elements on the page. If the body's \<^verbatim>\<open>message\<close> is truthy (there, and not \<^verbatim>\<open>null\<close>,
  \<^verbatim>\<open>false\<close>, \<open>0\<close> or the empty string) the client shows its string conversion as the weather
  status and renders no details. If it is not truthy and \<^verbatim>\<open>temperature\<close> and \<^verbatim>\<open>windspeed\<close>
  both differ from the string \<^verbatim>\<open>N/A\<close>, the status is \<^verbatim>\<open>Clima actual:\<close> and the details are the
  temperature in degrees Celsius, the wind speed, the measurement time and
  \<^verbatim>\<open>last_updated\<close>. Where the conversion of one of these values throws (an object with an own
  property \<^verbatim>\<open>toString\<close>, or an array that holds one), the client shows
  \<^verbatim>\<open>Error al cargar clima: \<close> with the message of what was thrown and renders no details.
\<close>

theorem weather_200_rendering:
  assumes "\<not> elements_missing d" and "ok r" and "json_body r = Inr wd" and "wd \<noteq> JNull"
  shows "(truthy (field wd ''message'') \<longrightarrow>
            (\<forall>s. js_String (field wd ''message'') = Inr s \<longrightarrow>
               weather_status_text (fst (fetchWeatherForCountry d cca3 force (Inr r))) = Some s
               \<and> weather_details (fst (fetchWeatherForCountry d cca3 force (Inr r))) = Some [])
          \<and> (\<forall>e. js_String (field wd ''message'') = Inl e \<longrightarrow>
               weather_status_text (fst (fetchWeatherForCountry d cca3 force (Inr r)))
                 = Some (''Error al cargar clima: '' @ message e)
               \<and> weather_details (fst (fetchWeatherForCountry d cca3 force (Inr r))) = Some []))
       \<and> (\<not> truthy (field wd ''message'') \<and> field wd ''temperature'' \<noteq> NA
            \<and> field wd ''windspeed'' \<noteq> NA \<longrightarrow>
            (\<forall>t w measured updated.
               js_String (field wd ''temperature'') = Inr t
               \<and> js_String (field wd ''windspeed'') = Inr w
               \<and> locale_date (field wd ''time'') = Inr measured
               \<and> locale_date (field wd ''last_updated'') = Inr updated \<longrightarrow>
               weather_status_text (fst (fetchWeatherForCountry d cca3 force (Inr r)))
                 = Some ''Clima actual:''
               \<and> weather_details (fst (fetchWeatherForCountry d cca3 force (Inr r)))
                 = Some (weather_template t w measured updated))
          \<and> (\<forall>e. weather_markup (field wd ''temperature'') (field wd ''windspeed'')
                      (field wd ''time'') (field wd ''last_updated'') = Inl e \<longrightarrow>
               weather_status_text (fst (fetchWeatherForCountry d cca3 force (Inr r)))
                 = Some (''Error al cargar clima: '' @ message e)
               \<and> weather_details (fst (fetchWeatherForCountry d cca3 force (Inr r))) = Some []))"
  using assms
  by (simp add: fetchWeather_texts try_block_ok render_weather_def read_prop_def
      weather_markup_def and_then_def)

theorem weather_200_rendering_witness:
  "\<not> elements_missing weather_widget
   \<and> truthy (field no_data ''message'')
   \<and> weather_status_text (fst (fetchWeatherForCountry weather_widget ''CRI'' True (ok_json no_data)))
       = Some ''No hay datos de clima para este pais.''
   \<and> weather_details (fst (fetchWeatherForCountry weather_widget ''CRI'' True (ok_json no_data)))
       = Some []
   \<and> \<not> truthy (field sunny ''message'')
   \<and> field sunny ''temperature'' \<noteq> NA \<and> field sunny ''windspeed'' \<noteq> NA
   \<and> weather_status_text (fst (fetchWeatherForCountry weather_widget ''CRI'' False (ok_json sunny)))
       = Some ''Clima actual:''
   \<and> weather_details (fst (fetchWeatherForCountry weather_widget ''CRI'' False (ok_json sunny)))
       = Some (weather_template ''21.4'' ''3.2'' (LocaleDate (Some (JStr ''2025-07-01T12:00'')))
                 (LocaleDate (Some (JStr ''2025-07-01T12:00:30''))))
   \<and> truthy (field object_message ''message'')
   \<and> js_String (field object_message ''message'') = Inl cannot_convert
   \<and> weather_status_text
        (fst (fetchWeatherForCountry weather_widget ''CRI'' False (ok_json object_message)))
       = Some (''Error al cargar clima: '' @ message cannot_convert)
   \<and> weather_details
        (fst (fetchWeatherForCountry weather_widget ''CRI'' False (ok_json object_message)))
       = Some []"
proof -
  have present: "\<not> elements_missing weather_widget"
    by (rule weather_widget_present)
  have a: "ok \<lparr>ok = True, json_body = Inr no_data\<rparr>"
    "json_body \<lparr>ok = True, json_body = Inr no_data\<rparr> = Inr no_data" "no_data \<noteq> JNull"
    by (simp_all add: no_data_def)
  have b: "ok \<lparr>ok = True, json_body = Inr sunny\<rparr>"
    "json_body \<lparr>ok = True, json_body = Inr sunny\<rparr> = Inr sunny" "sunny \<noteq> JNull"
    by (simp_all add: sunny_def)
  have c: "ok \<lparr>ok = True, json_body = Inr object_message\<rparr>"
    "json_body \<lparr>ok = True, json_body = Inr object_message\<rparr> = Inr object_message"
    "object_message \<noteq> JNull"
    by (simp_all add: object_message_def)
  show ?thesis
    using present
      weather_200_rendering [OF present a, of "''CRI''" True]
      weather_200_rendering [OF present b, of "''CRI''" False]
      weather_200_rendering [OF present c, of "''CRI''" False]
    by (simp add: ok_json_def no_data_def sunny_def object_message_def NA_def js_String_def
        locale_date_def and_then_def)
qed

text \<open>
  C8: for every 200 response without a \<^verbatim>\<open>message\<close> field in which \<^verbatim>\<open>temperature\<close> or
  \<^verbatim>\<open>windspeed\<close> is the string \<^verbatim>\<open>N/A\<close>, the client shows
  \<^verbatim>\<open>Datos de clima no disponibles o incompletos.\<close> and renders no details, so the field that
  is usable is not shown either.
\<close>

theorem incomplete_data_hidden:
  assumes "\<not> elements_missing d" and "ok r" and "json_body r = Inr wd"
    and "field wd ''message'' = None"
    and "field wd ''temperature'' = NA \<or> field wd ''windspeed'' = NA"
  shows "weather_status_text (fst (fetchWeatherForCountry d cca3 force (Inr r)))
           = Some ''Datos de clima no disponibles o incompletos.''
         \<and> weather_details (fst (fetchWeatherForCountry d cca3 force (Inr r))) = Some []"
proof -
  from assms(5) have "wd \<noteq> JNull"
    by (auto simp: NA_def)
  with assms show ?thesis
    by (auto simp add: fetchWeather_texts try_block_ok render_weather_def read_prop_def)
qed

theorem incomplete_data_hidden_witness:
  "\<not> elements_missing weather_widget
   \<and> field wind_missing ''message'' = None
   \<and> field wind_missing ''temperature'' = Some (JNum ''21.4'')
   \<and> field wind_missing ''windspeed'' = NA
   \<and> weather_status_text
        (fst (fetchWeatherForCountry weather_widget ''CRI'' False (ok_json wind_missing)))
       = Some ''Datos de clima no disponibles o incompletos.''
   \<and> weather_details
        (fst (fetchWeatherForCountry weather_widget ''CRI'' False (ok_json wind_missing)))
       = Some []"
proof -
  have present: "\<not> elements_missing weather_widget"
    by (rule weather_widget_present)
  have a: "ok \<lparr>ok = True, json_body = Inr wind_missing\<rparr>"
    "json_body \<lparr>ok = True, json_body = Inr wind_missing\<rparr> = Inr wind_missing"
    by simp_all
  have b: "field wind_missing ''message'' = None"
    "field wind_missing ''temperature'' = NA \<or> field wind_missing ''windspeed'' = NA"
    by (simp_all add: wind_missing_def NA_def)
  show ?thesis
    using present b incomplete_data_hidden [OF present a b, of "''CRI''" False]
    by (simp add: ok_json_def wind_missing_def NA_def)
qed

text \<open>
  C6, as the specification states it, fails: a response that is not ok and whose body is not
  JSON has no \<^verbatim>\<open>detail\<close>, and the text shown is not the generic message but the message of
  the error that reading the body threw.
\<close>

theorem failure_text_counterexample:
  "\<not> ok plain_text_500
   \<and> json_body plain_text_500 = Inl (JsError ''Unexpected token I in JSON at position 0'')
   \<and> weather_status_text
        (fst (fetchWeatherForCountry weather_widget ''CRI'' False (Inr plain_text_500)))
       = Some ''Error al cargar clima: Unexpected token I in JSON at position 0''
   \<and> weather_status_text
        (fst (fetchWeatherForCountry weather_widget ''CRI'' False (Inr plain_text_500)))
       \<noteq> Some ''Error al cargar clima: No se pudo obtener el clima.''"
  by (simp add: fetchWeather_texts weather_widget_present try_block_def not_ok_error_def
      plain_text_500_def)

text \<open>
  C6, amended: for every response that is not ok, with the weather elements on the page, the
  client shows \<^verbatim>\<open>Error al cargar clima: \<close> followed by an error message and clears the weather
  details, so the failure is never swallowed. When the body is JSON other than \<^verbatim>\<open>null\<close>: the
  message is the string conversion of its \<^verbatim>\<open>detail\<close> if that is truthy, or the message of
  what the conversion throws (for an object with an own property \<^verbatim>\<open>toString\<close>, or an
  array that holds one), and the generic \<^verbatim>\<open>No se pudo obtener el clima.\<close> if \<^verbatim>\<open>detail\<close> is
  absent or falsy. When the body is not JSON the message is the one of the error thrown by
  reading it.
\<close>

theorem failure_text_surfaced:
  assumes "\<not> elements_missing d" and "\<not> ok r"
  shows "weather_details (fst (fetchWeatherForCountry d cca3 force (Inr r))) = Some []
     \<and> (\<exists>msg. weather_status_text (fst (fetchWeatherForCountry d cca3 force (Inr r)))
                = Some (''Error al cargar clima: '' @ msg))
     \<and> (\<forall>v. json_body r = Inr v \<and> v \<noteq> JNull \<longrightarrow>
          (truthy (field v ''detail'') \<longrightarrow>
             (\<forall>s. js_String (field v ''detail'') = Inr s \<longrightarrow>
                weather_status_text (fst (fetchWeatherForCountry d cca3 force (Inr r)))
                  = Some (''Error al cargar clima: '' @ s))
           \<and> (\<forall>e. js_String (field v ''detail'') = Inl e \<longrightarrow>
                weather_status_text (fst (fetchWeatherForCountry d cca3 force (Inr r)))
                  = Some (''Error al cargar clima: '' @ message e)))
        \<and> (\<not> truthy (field v ''detail'') \<longrightarrow>
             weather_status_text (fst (fetchWeatherForCountry d cca3 force (Inr r)))
               = Some ''Error al cargar clima: No se pudo obtener el clima.''))
     \<and> (\<forall>e. json_body r = Inl e \<longrightarrow>
          weather_status_text (fst (fetchWeatherForCountry d cca3 force (Inr r)))
            = Some (''Error al cargar clima: '' @ message e))"
  using assms
  by (simp add: fetchWeather_texts try_block_not_ok not_ok_error_def read_prop_def)

theorem failure_text_surfaced_witness:
  "\<not> elements_missing weather_widget \<and> \<not> ok not_found
   \<and> weather_details (fst (fetchWeatherForCountry weather_widget ''XYZ'' False (Inr not_found)))
       = Some []
   \<and> weather_status_text (fst (fetchWeatherForCountry weather_widget ''XYZ'' False (Inr not_found)))
       = Some ''Error al cargar clima: Pais no encontrado''
   \<and> \<not> ok object_detail
   \<and> weather_status_text
        (fst (fetchWeatherForCountry weather_widget ''XYZ'' False (Inr object_detail)))
       = Some (''Error al cargar clima: '' @ message cannot_convert)"
proof -
  have present: "\<not> elements_missing weather_widget"
    by (rule weather_widget_present)
  have a: "\<not> ok not_found"
    by (simp add: not_found_def)
  have b: "json_body not_found = Inr (JObj [(''detail'', JStr ''Pais no encontrado'')])
           \<and> JObj [(''detail'', JStr ''Pais no encontrado'')] \<noteq> JNull"
    by (simp add: not_found_def)
  have c: "\<not> ok object_detail"
    by (simp add: object_detail_def)
  have d: "json_body object_detail = Inr (JObj [(''detail'', JObj [(''toString'', JNum ''1'')])])
           \<and> JObj [(''detail'', JObj [(''toString'', JNum ''1'')])] \<noteq> JNull"
    by (simp add: object_detail_def)
  show ?thesis
    using present a b c d
      failure_text_surfaced [OF present a, of "''XYZ''" False]
      failure_text_surfaced [OF present c, of "''XYZ''" False]
    by (simp add: js_String_def)
qed

text \<open>
  C7: one call of \<^verbatim>\<open>fetchWeatherForCountry\<close> issues at most one request, and only to the
  weather endpoint of its country, whatever the \<^verbatim>\<open>fetch\<close> settles to; the part of the call that
  runs once the \<^verbatim>\<open>fetch\<close> has settled sends nothing, leaves nothing waiting and registers no
  timer, so after a failure nothing is tried again until the timer ticks or the button is
  clicked.
\<close>

theorem one_request_per_invocation:
  "length (snd (fetchWeatherForCountry d cca3 force out)) \<le> 1
   \<and> set (snd (fetchWeatherForCountry d cca3 force out)) \<subseteq> {weather_request cca3}
   \<and> sent (fetchWeather_267 cca3 g False out c) = sent c
   \<and> suspended (fetchWeather_267 cca3 g False out c) = suspended c
   \<and> intervals (fetchWeather_267 cca3 g False out c) = intervals c"
  by (simp add: fetchWeatherForCountry_def fetchWeather_267_def write_elements_def consult_def)

text \<open>
  C10: if one of the five elements is missing, \<^verbatim>\<open>fetchWeatherForCountry\<close> returns with the
  page as it was and no request issued; otherwise, whatever the \<^verbatim>\<open>fetch\<close> settles to (a
  rejection, a response that is not ok, a body that cannot be read, a 200), it ends with the
  spinner hidden, the button enabled and the button's label \<^verbatim>\<open>Consultar Clima\<close>.
\<close>

theorem ui_state_restored:
  "(elements_missing d \<longrightarrow> fetchWeatherForCountry d cca3 force out = (d, []))
   \<and> (\<not> elements_missing d \<longrightarrow>
        spinnerElement (fst (fetchWeatherForCountry d cca3 force out)) = Some True
        \<and> map_option disabled (consultar_clima_btn (fst (fetchWeatherForCountry d cca3 force out)))
            = Some False
        \<and> map_option textContent
            (consultar_clima_btn (fst (fetchWeatherForCountry d cca3 force out)))
            = Some ''Consultar Clima'')"
proof (intro conjI impI)
  assume "elements_missing d"
  then show "fetchWeatherForCountry d cca3 force out = (d, [])"
    by (simp add: fetchWeatherForCountry_def)
next
  assume present: "\<not> elements_missing d"
  then have loading: "\<not> elements_missing (show_loading d)"
    by (rule elements_present_loading)
  then obtain b where b: "consultar_clima_btn (show_loading d) = Some b"
    by (auto simp: elements_missing_def)
  from present loading show
    "spinnerElement (fst (fetchWeatherForCountry d cca3 force out)) = Some True"
    by (simp add: fetchWeatherForCountry_def settle_weather_spinner)
  from present b show
    "map_option disabled (consultar_clima_btn (fst (fetchWeatherForCountry d cca3 force out)))
       = Some False"
    by (simp add: fetchWeatherForCountry_def settle_weather_button)
  from present b show
    "map_option textContent (consultar_clima_btn (fst (fetchWeatherForCountry d cca3 force out)))
       = Some ''Consultar Clima''"
    by (simp add: fetchWeatherForCountry_def settle_weather_button)
qed

theorem ui_state_restored_witness:
  "elements_missing no_weather_elements
   \<and> fetchWeatherForCountry no_weather_elements ''CRI'' True (Inr plain_text_500)
       = (no_weather_elements, [])
   \<and> \<not> elements_missing weather_widget
   \<and> spinnerElement
        (fst (fetchWeatherForCountry weather_widget ''CRI'' True (Inl (JsError ''Failed to fetch''))))
       = Some True
   \<and> map_option disabled
        (consultar_clima_btn
          (fst (fetchWeatherForCountry weather_widget ''CRI'' True
                 (Inl (JsError ''Failed to fetch'')))))
       = Some False
   \<and> map_option textContent
        (consultar_clima_btn
          (fst (fetchWeatherForCountry weather_widget ''CRI'' True
                 (Inl (JsError ''Failed to fetch'')))))
       = Some ''Consultar Clima''"
proof -
  have missing: "elements_missing no_weather_elements"
    by (simp add: elements_missing_def no_weather_elements_def)
  have present: "\<not> elements_missing weather_widget"
    by (rule weather_widget_present)
  show ?thesis
    using missing present
      ui_state_restored [of no_weather_elements "''CRI''" True "Inr plain_text_500"]
      ui_state_restored [of weather_widget "''CRI''" True "Inl (JsError ''Failed to fetch'')"]
    by simp
qed

section \<open>The timer table\<close>

text \<open>Writes to the page leave the timers, the waiting calls and the requests alone.\<close>

lemma consult_frame:
  "intervals (consult c) = intervals c"
  "intervals_created (consult c) = intervals_created c"
  "weatherUpdateIntervalId (consult c) = weatherUpdateIntervalId c"
  "currentCountryCodeInModal (consult c) = currentCountryCodeInModal c"
  "modal_container_hidden (consult c) = modal_container_hidden c"
  "suspended (consult c) = suspended c"
  "sent (consult c) = sent c"
  "generation (consult c) = generation c"
  by (simp_all add: consult_def)

lemma write_elements_frame:
  "intervals (write_elements m d c) = intervals c"
  "intervals_created (write_elements m d c) = intervals_created c"
  "weatherUpdateIntervalId (write_elements m d c) = weatherUpdateIntervalId c"
  "currentCountryCodeInModal (write_elements m d c) = currentCountryCodeInModal c"
  "modal_container_hidden (write_elements m d c) = modal_container_hidden c"
  "suspended (write_elements m d c) = suspended c"
  "sent (write_elements m d c) = sent c"
  "generation (write_elements m d c) = generation c"
  by (simp_all add: write_elements_def consult_frame)

lemma set_modal_body_frame:
  "intervals (set_modal_body m els c) = intervals c"
  "intervals_created (set_modal_body m els c) = intervals_created c"
  "weatherUpdateIntervalId (set_modal_body m els c) = weatherUpdateIntervalId c"
  "currentCountryCodeInModal (set_modal_body m els c) = currentCountryCodeInModal c"
  "modal_container_hidden (set_modal_body m els c) = modal_container_hidden c"
  "suspended (set_modal_body m els c) = suspended c"
  "sent (set_modal_body m els c) = sent c"
  "generation (set_modal_body m els c) = Suc (generation c)"
  by (simp_all add: set_modal_body_def consult_frame)

lemma set_modal_body_inert:
  "inert m \<Longrightarrow> elements (set_modal_body m els c) = els"
  "inert m \<Longrightarrow> intact (set_modal_body m els c)"
  by (simp_all add: set_modal_body_def)


lemma clear_weather_interval_intervals:
  "intervals (clear_weather_interval c) =
     (case weatherUpdateIntervalId c of
        None \<Rightarrow> intervals c
      | Some i \<Rightarrow> if i \<noteq> 0 then filter (\<lambda>t. fst t \<noteq> i) (intervals c) else intervals c)"
  by (simp add: clear_weather_interval_def clearInterval_def split: option.splits)

lemma start_weather_interval_facts:
  "weatherUpdateIntervalId (start_weather_interval code c) = Some (Suc (intervals_created c))"
  "intervals (start_weather_interval code c)
     = intervals c @ [(Suc (intervals_created c), \<lparr>callback_code = code, delay = 60000\<rparr>)]"
  "intervals_created (start_weather_interval code c) = Suc (intervals_created c)"
  "currentCountryCodeInModal (start_weather_interval code c) = currentCountryCodeInModal c"
  "modal_container_hidden (start_weather_interval code c) = modal_container_hidden c"
  "suspended (start_weather_interval code c) = suspended c"
  "sent (start_weather_interval code c) = sent c"
  "elements (start_weather_interval code c) = elements c"
  "intact (start_weather_interval code c) = intact c"
  by (simp_all add: start_weather_interval_def setInterval_def Let_def)



















section \<open>openModal with nothing in between\<close>

lemma inert_loading_details: "inert loading_details"
  by (simp add: inert_def loading_details_def)

lemma inert_nothing: "inert []"
  by (simp add: inert_def)

lemma call_openModal_facts:
  "suspended (call_openModal code saved c) = suspended c @ [OpenModal_202 code saved]"
  "intervals (call_openModal code saved c) = intervals (clear_weather_interval c)"
  "weatherUpdateIntervalId (call_openModal code saved c)
     = weatherUpdateIntervalId (clear_weather_interval c)"
  "intervals_created (call_openModal code saved c) = intervals_created c"
  "currentCountryCodeInModal (call_openModal code saved c) = Some code"
  "\<not> modal_container_hidden (call_openModal code saved c)"
  "sent (call_openModal code saved c) = sent c @ [country_request code]"
  "intact (call_openModal code saved c)"
  by (simp_all add: call_openModal_def Let_def set_modal_body_def inert_loading_details
      clear_weather_interval_def clearInterval_def split: option.splits)

text \<open>
  Line 240 and what follows it: whether the call of \<^verbatim>\<open>fetchWeatherForCountry\<close> returns at
  line 256 or waits for its \<^verbatim>\<open>fetch\<close>, line 241 registers the timer.
\<close>

lemma weather_phase:
  fixes c :: client and code :: string and out :: fetch_outcome
  defines "c' \<equiv> run (call_fetchWeather code False True c) [Settle (length (suspended c)) out]"
  shows "weatherUpdateIntervalId c' = Some (Suc (intervals_created c))"
    and "intervals c'
           = intervals c @ [(Suc (intervals_created c), \<lparr>callback_code = code, delay = 60000\<rparr>)]"
    and "intervals_created c' = Suc (intervals_created c)"
    and "suspended c' = suspended c"
    and "currentCountryCodeInModal c' = currentCountryCodeInModal c"
    and "modal_container_hidden c' = modal_container_hidden c"
proof -
  have "weatherUpdateIntervalId c' = Some (Suc (intervals_created c))
    \<and> intervals c'
         = intervals c @ [(Suc (intervals_created c), \<lparr>callback_code = code, delay = 60000\<rparr>)]
    \<and> intervals_created c' = Suc (intervals_created c)
    \<and> suspended c' = suspended c
    \<and> currentCountryCodeInModal c' = currentCountryCodeInModal c
    \<and> modal_container_hidden c' = modal_container_hidden c"
  proof (cases "elements_missing (elements c)")
    case True
    then have "c' = start_weather_interval code c"
      by (simp add: c'_def run_def call_fetchWeather_def start_weather_interval_facts)
    then show ?thesis
      by (simp add: start_weather_interval_facts)
  next
    case False
    then show ?thesis
      by (simp add: c'_def run_def call_fetchWeather_def fetchWeather_267_def drop_nth_def
          Let_def nth_append write_elements_frame start_weather_interval_facts)
  qed
  then show "weatherUpdateIntervalId c' = Some (Suc (intervals_created c))"
    and "intervals c'
           = intervals c @ [(Suc (intervals_created c), \<lparr>callback_code = code, delay = 60000\<rparr>)]"
    and "intervals_created c' = Suc (intervals_created c)"
    and "suspended c' = suspended c"
    and "currentCountryCodeInModal c' = currentCountryCodeInModal c"
    and "modal_container_hidden c' = modal_container_hidden c"
    by simp_all
qed

lemma weather_phase_intact:
  fixes c :: client and code :: string and out :: fetch_outcome
  defines "c' \<equiv> run (call_fetchWeather code False True c) [Settle (length (suspended c)) out]"
  assumes "intact c" and "\<not> elements_missing (elements c)" and "inert (assigned_details out)"
  shows "elements c' = settle_weather (show_loading (elements c)) out"
    and "sent c' = sent c @ [weather_request code]"
    and "intact c'"
  using assms(2-4)
  by (simp_all add: c'_def run_def call_fetchWeather_def fetchWeather_267_def drop_nth_def
      Let_def nth_append write_elements_def inert_nothing start_weather_interval_facts)

lemma at_line_240_facts:
  "intervals (at_line_240 code saved country m c) = intervals (clear_weather_interval c)"
  "intervals_created (at_line_240 code saved country m c) = intervals_created c"
  "suspended (at_line_240 code saved country m c) = suspended c"
  "currentCountryCodeInModal (at_line_240 code saved country m c) = Some code"
  "\<not> modal_container_hidden (at_line_240 code saved country m c)"
  "sent (at_line_240 code saved country m c) = sent c @ [country_request code]"
  by (simp_all add: at_line_240_def Let_def set_modal_body_frame call_openModal_facts)

lemma at_line_240_inert:
  "inert m \<Longrightarrow>
     elements (at_line_240 code saved country m c) = add_click_listener code weather_widget"
  "inert m \<Longrightarrow> intact (at_line_240 code saved country m c)"
  by (simp_all add: at_line_240_def Let_def set_modal_body_inert)

lemma openModal_as_phase:
  assumes "country_details country_out = Inr (country, m)"
  shows "openModal code saved country_out weather_out c
           = run (call_fetchWeather code False True (at_line_240 code saved country m c))
               [Settle (length (suspended (at_line_240 code saved country m c))) weather_out]"
  using assms
  by (simp add: openModal_def run_def Let_def call_openModal_facts nth_append drop_nth_def
      openModal_203_def at_line_240_def at_line_240_facts(3) set_modal_body_frame)

lemma openModal_loaded:
  assumes "country_details country_out = Inr (country, m)"
  shows "weatherUpdateIntervalId (openModal code saved country_out weather_out c)
           = Some (Suc (intervals_created c))"
    and "intervals (openModal code saved country_out weather_out c)
           = intervals (clear_weather_interval c)
             @ [(Suc (intervals_created c), \<lparr>callback_code = code, delay = 60000\<rparr>)]"
    and "suspended (openModal code saved country_out weather_out c) = suspended c"
    and "currentCountryCodeInModal (openModal code saved country_out weather_out c) = Some code"
    and "\<not> modal_container_hidden (openModal code saved country_out weather_out c)"
proof -
  note phase =
    weather_phase [of code "at_line_240 code saved country m c" weather_out,
      unfolded at_line_240_facts]
  show "weatherUpdateIntervalId (openModal code saved country_out weather_out c)
           = Some (Suc (intervals_created c))"
    and "intervals (openModal code saved country_out weather_out c)
           = intervals (clear_weather_interval c)
             @ [(Suc (intervals_created c), \<lparr>callback_code = code, delay = 60000\<rparr>)]"
    and "suspended (openModal code saved country_out weather_out c) = suspended c"
    and "currentCountryCodeInModal (openModal code saved country_out weather_out c) = Some code"
    and "\<not> modal_container_hidden (openModal code saved country_out weather_out c)"
    unfolding openModal_as_phase [OF assms] at_line_240_facts
    using phase at_line_240_facts(5) [of code saved country m c] by simp_all
qed

lemma openModal_loaded_inert:
  assumes "country_details country_out = Inr (country, m)"
    and "inert m" and "inert (assigned_details weather_out)"
  shows "elements (openModal code saved country_out weather_out c)
           = settle_weather (show_loading (add_click_listener code weather_widget)) weather_out"
    and "sent (openModal code saved country_out weather_out c)
           = sent c @ [country_request code, weather_request code]"
    and "intact (openModal code saved country_out weather_out c)"
proof -
  have present: "\<not> elements_missing (elements (at_line_240 code saved country m c))"
    using assms(2) by (simp add: at_line_240_inert widget_present)
  note phase =
    weather_phase_intact [of "at_line_240 code saved country m c" weather_out code,
      OF at_line_240_inert(2) [OF assms(2)] present assms(3),
      unfolded at_line_240_facts at_line_240_inert(1) [OF assms(2)]]
  show "elements (openModal code saved country_out weather_out c)
           = settle_weather (show_loading (add_click_listener code weather_widget)) weather_out"
    and "sent (openModal code saved country_out weather_out c)
           = sent c @ [country_request code, weather_request code]"
    and "intact (openModal code saved country_out weather_out c)"
    unfolding openModal_as_phase [OF assms(1)] at_line_240_facts
    using phase by simp_all
qed

lemma openModal_failed:
  assumes "country_details country_out = Inl e"
  shows "intervals (openModal code saved country_out weather_out c)
           = intervals (clear_weather_interval c)"
    and "weatherUpdateIntervalId (openModal code saved country_out weather_out c)
           = weatherUpdateIntervalId (clear_weather_interval c)"
    and "suspended (openModal code saved country_out weather_out c) = suspended c"
  using assms
  by (simp_all add: openModal_def run_def Let_def call_openModal_facts nth_append drop_nth_def
      openModal_203_def set_modal_body_frame)

lemma country_details_costa_rica:
  "\<exists>m. country_details (ok_json costa_rica) = Inr (costa_rica, m) \<and> inert m"
  by (simp add: country_details_def ok_json_def costa_rica_def country_markup_def and_then_def
      read_prop_def if_truthy_def toLocaleString_def js_String_def NA_def inert_def
      weather_info_def)

lemma country_details_panama:
  "\<exists>m. country_details (ok_json panama) = Inr (panama, m) \<and> inert m"
  by (simp add: country_details_def ok_json_def panama_def country_markup_def and_then_def
      read_prop_def if_truthy_def toLocaleString_def js_String_def NA_def inert_def
      weather_info_def)

lemma sunny_details_inert: "inert (assigned_details (ok_json sunny))"
  by (simp add: assigned_details_def try_block_def render_weather_def read_prop_def
      ok_json_def sunny_def NA_def weather_markup_def js_String_def locale_date_def
      and_then_def weather_template_def inert_def)

lemma tick_calls_fetchWeather:
  "map_of (intervals c) i = Some t \<Longrightarrow>
     sent (step c (IntervalTick i))
       = sent c @ (if elements_missing (elements c) then [] else [weather_request (callback_code t)])"
  by (simp add: call_fetchWeather_def write_elements_frame)

text \<open>
  On an intact page, a tick whose \<^verbatim>\<open>fetch\<close> settles before anything else happens, and
  whose details are inert, does to the elements what \<open>fetchWeatherForCountry\<close> says, and sends
  the requests it says.
\<close>

lemma tick_agrees:
  assumes "map_of (intervals c) i = Some t" and "intact c"
    and "inert (assigned_details out)"
  shows "elements (run c [IntervalTick i, Settle (length (suspended c)) out])
           = fst (fetchWeatherForCountry (elements c) (callback_code t) False out)"
    and "sent (run c [IntervalTick i, Settle (length (suspended c)) out])
           = sent c @ snd (fetchWeatherForCountry (elements c) (callback_code t) False out)"
  using assms
  by (simp_all add: run_def call_fetchWeather_def fetchWeather_267_def fetchWeatherForCountry_def
      drop_nth_def Let_def nth_append write_elements_def inert_nothing)







section \<open>One timer at a time\<close>

text \<open>
  When each \<^verbatim>\<open>openModal\<close> has finished before the next event, the three functions keep the
  table at no more than the one timer that \<^verbatim>\<open>weatherUpdateIntervalId\<close> names.
\<close>

lemma tracked_cleared:
  "tracked c \<Longrightarrow>
     intervals (clear_weather_interval c) = []
     \<and> weatherUpdateIntervalId (clear_weather_interval c) = None"
  by (cases "intervals c"; cases "weatherUpdateIntervalId c")
     (auto simp: tracked_def clear_weather_interval_def clearInterval_def)

lemma closeModal_resets:
  "tracked c \<Longrightarrow>
     intervals (closeModal c) = [] \<and> weatherUpdateIntervalId (closeModal c) = None
     \<and> currentCountryCodeInModal (closeModal c) = None"
  using tracked_cleared [of "c\<lparr>modal_container_hidden := True\<rparr>"]
  by (simp add: closeModal_def tracked_def)

lemma switchView_resets:
  "tracked c \<Longrightarrow>
     intervals (switchView viewName c) = [] \<and> weatherUpdateIntervalId (switchView viewName c) = None
     \<and> currentCountryCodeInModal (switchView viewName c) = None"
  using tracked_cleared [of c] by (simp add: switchView_def)

lemma tracked_initial: "tracked initial"
  by (simp add: tracked_def initial_def)

lemma tracked_closeModal: "tracked c \<Longrightarrow> tracked (closeModal c)"
  using closeModal_resets [of c] by (simp add: tracked_def)

lemma tracked_switchView: "tracked c \<Longrightarrow> tracked (switchView viewName c)"
  using switchView_resets [of c viewName] by (simp add: tracked_def)

lemma tracked_openModal:
  "tracked c \<Longrightarrow> tracked (openModal code saved country_out weather_out c)"
proof (cases "country_details country_out")
  case (Inl e)
  assume "tracked c"
  with openModal_failed [OF Inl, of code saved weather_out c] tracked_cleared [of c]
  show ?thesis
    by (simp add: tracked_def)
next
  case (Inr p)
  assume "tracked c"
  obtain country m where "p = (country, m)"
    by (cases p)
  with Inr have "country_details country_out = Inr (country, m)"
    by simp
  from openModal_loaded(1,2) [OF this, of code saved weather_out c] tracked_cleared [OF \<open>tracked c\<close>]
  show ?thesis
    by (simp add: tracked_def)
qed

text \<open>
  C9 fails on the code when two calls of \<^verbatim>\<open>openModal\<close> overlap. The card of Costa Rica is
  clicked, the modal is closed before the country response arrives, the card of Panama is
  clicked, and the responses arrive. Line 241 of each call then registers a timer, and neither
  call clears one, since both ran lines 185-188 before any timer existed: two timers are
  active, \<^verbatim>\<open>weatherUpdateIntervalId\<close> names the second only, and closing the modal afterwards
  leaves the first running.
\<close>

theorem overlapping_opens_leak_timer:
  "intervals (run initial overlapping_opens) =
     [(1, \<lparr>callback_code = ''CRI'', delay = 60000\<rparr>),
      (2, \<lparr>callback_code = ''PAN'', delay = 60000\<rparr>)]
   \<and> weatherUpdateIntervalId (run initial overlapping_opens) = Some 2
   \<and> intervals (run initial (overlapping_opens @ [ModalClose])) =
       [(1, \<lparr>callback_code = ''CRI'', delay = 60000\<rparr>)]
   \<and> weatherUpdateIntervalId (run initial (overlapping_opens @ [ModalClose])) = None"
proof -
  obtain m1 where cr: "country_details (ok_json costa_rica) = Inr (costa_rica, m1)"
    and m1: "inert m1"
    using country_details_costa_rica by blast
  obtain m2 where pa: "country_details (ok_json panama) = Inr (panama, m2)"
    and m2: "inert m2"
    using country_details_panama by blast
  show ?thesis
    by (simp add: overlapping_opens_def run_def call_openModal_def set_modal_body_def
        openModal_203_def call_fetchWeather_def fetchWeather_267_def write_elements_def
        start_weather_interval_def setInterval_def drop_nth_def Let_def widget_present
        nth_append clear_weather_interval_def clearInterval_def closeModal_def initial_def
        cr pa m1 m2 inert_loading_details inert_nothing sunny_details_inert)
qed

text \<open>
  C3 fails on the code: \<^verbatim>\<open>force\<close> is a parameter that the body never reads. With the modal of
  Costa Rica open, the click on the button (\<^verbatim>\<open>fetchWeatherForCountry(code, true)\<close>) and the
  tick of the timer (\<^verbatim>\<open>fetchWeatherForCountry(code)\<close>) send the same request, a GET of the
  same URL with nothing else in it, and a call with \<^verbatim>\<open>true\<close> does what a call with \<^verbatim>\<open>false\<close>
  does.
\<close>

theorem force_flag_dropped:
  "sent (step opened ConsultarClick)
     = sent opened @ [\<lparr>req_method = ''GET'', req_url = ''http://127.0.0.1:8000/api/weather/CRI''\<rparr>]
   \<and> sent (step opened (IntervalTick 1))
     = sent opened @ [\<lparr>req_method = ''GET'', req_url = ''http://127.0.0.1:8000/api/weather/CRI''\<rparr>]
   \<and> fetchWeatherForCountry weather_widget ''CRI'' True (ok_json sunny)
     = fetchWeatherForCountry weather_widget ''CRI'' False (ok_json sunny)"
proof -
  obtain m where cr: "country_details (ok_json costa_rica) = Inr (costa_rica, m)"
    and m: "inert m"
    using country_details_costa_rica by blast
  note loaded = openModal_loaded [OF cr, of "''CRI''" False "ok_json sunny" initial,
      folded opened_def]
  note shown = openModal_loaded_inert [OF cr m sunny_details_inert, of "''CRI''" False initial,
      folded opened_def]
  have present: "\<not> elements_missing (elements opened)"
    unfolding shown(1)
    by (intro elements_present_settled elements_present_loading widget_present)
  have button: "consultar_clima_btn (elements opened) =
      Some \<lparr>disabled = False, textContent = ''Consultar Clima'', click_listeners = [''CRI'']\<rparr>"
    unfolding shown(1)
    by (simp add: settle_weather_button show_loading_button add_click_listener_def
        weather_widget_def)
  have timer: "map_of (intervals opened) 1 = Some \<lparr>callback_code = ''CRI'', delay = 60000\<rparr>"
    unfolding loaded(2) by (simp add: initial_def clear_weather_interval_def)
  have click: "sent (step opened ConsultarClick) = sent opened @ [weather_request ''CRI'']"
    using present button
    by (simp add: click_consultar_def call_fetchWeather_def write_elements_frame)
  have tick: "sent (step opened (IntervalTick 1)) = sent opened @ [weather_request ''CRI'']"
    using tick_calls_fetchWeather [OF timer] present by simp
  from click tick show ?thesis
    by (simp add: weather_request_def fetch_get_def API_URL_def force_is_ignored)
qed

section \<open>The loader never takes last_updated back\<close>

lemma upsert_cleaned_mono:
  "last_updated r \<le> last_updated (upsert_cleaned (Some r) f now)"
  by (simp add: upsert_cleaned_def cleaned_fields.extend_def)

lemma load_keeps_record:
  assumes "cleaned st code = Some r"
  shows "\<exists>r'. cleaned (load c p a now st) code = Some r' \<and> last_updated r \<le> last_updated r'"
  using assms upsert_cleaned_mono by (cases a) (auto simp: load_def)

lemma load_all_append: "load_all st (ls @ ls') = load_all (load_all st ls) ls'"
  by (simp add: load_all_def)

lemma load_all_keeps_record:
  "cleaned st code = Some r \<Longrightarrow>
     \<exists>r'. cleaned (load_all st ls) code = Some r' \<and> last_updated r \<le> last_updated r'"
proof (induction ls arbitrary: st r)
  case Nil
  then show ?case
    by (simp add: load_all_def)
next
  case (Cons l ls)
  define st1 where "st1 = load (load_code l) (load_payload l) (load_fields l) (load_now l) st"
  obtain r1 where r1: "cleaned st1 code = Some r1" and le1: "last_updated r \<le> last_updated r1"
    unfolding st1_def using load_keeps_record [OF Cons.prems] by blast
  from Cons.IH [OF r1] obtain r' where
    "cleaned (load_all st1 ls) code = Some r'" and "last_updated r1 \<le> last_updated r'"
    by blast
  with le1 show ?case
    by (auto simp: load_all_def st1_def)
qed

text \<open>
  C2, on the loader modelled from the specification: whatever loads follow, for this country
  or another, accepted or rejected, with whatever measurement times and local times, the
  country keeps a cleaned record and its \<open>last_updated\<close> is at least what it was at any
  earlier point of the sequence.
\<close>

theorem last_updated_never_regresses:
  "cleaned (load_all st ls) code = Some r \<Longrightarrow>
     \<exists>r'. cleaned (load_all st (ls @ ls')) code = Some r' \<and> last_updated r \<le> last_updated r'"
  unfolding load_all_append by (rule load_all_keeps_record)

theorem last_updated_never_regresses_witness:
  "cleaned (load_all stored_example []) ''CRI'' =
     Some \<lparr>temperature = Numeric 25, windspeed = Numeric 3, measurement_time = 1000,
           validity = Valid, last_updated = 1010\<rparr>
   \<and> (\<exists>r'. cleaned (load_all stored_example ([] @ older_loads)) ''CRI'' = Some r'
            \<and> 1010 \<le> last_updated r')
   \<and> cleaned (load_all stored_example (take 1 older_loads)) ''CRI'' =
     Some \<lparr>temperature = Numeric 25, windspeed = Numeric 3, measurement_time = 1000,
           validity = Valid, last_updated = 1010\<rparr>
   \<and> cleaned (load_all stored_example older_loads) ''CRI'' =
     Some \<lparr>temperature = Numeric 23, windspeed = Numeric 2, measurement_time = 950,
           validity = Valid, last_updated = 1100\<rparr>"
proof -
  have before: "cleaned (load_all stored_example []) ''CRI'' =
     Some \<lparr>temperature = Numeric 25, windspeed = Numeric 3, measurement_time = 1000,
           validity = Valid, last_updated = 1010\<rparr>"
    by (simp add: load_all_def stored_example_def)
  show ?thesis
    using before last_updated_never_regresses [OF before, of older_loads]
    by (simp add: load_all_def stored_example_def older_loads_def load_def upsert_cleaned_def
        cleaned_fields.extend_def)
qed

section \<open>One extraction in flight per country\<close>

lemma balanced_idle: "balanced (idle st)"
  by (simp add: balanced_def idle_def)

lemma balanced_get: "balanced g \<Longrightarrow> balanced (get code who force now g)"
  by (auto simp: balanced_def get_def split: option.splits)

lemma balanced_resolve: "balanced g \<Longrightarrow> balanced (resolve code result now g)"
  by (auto simp: balanced_def resolve_def Let_def split: option.splits)

lemma balanced_step: "balanced g \<Longrightarrow> balanced (gw_step g ev)"
  by (cases ev) (simp_all add: balanced_get balanced_resolve)

lemma balanced_run: "balanced g \<Longrightarrow> balanced (gw_run g evs)"
  unfolding gw_run_def by (induction evs arbitrary: g) (simp_all add: balanced_step)

lemma balanced_in_flight:
  "balanced g \<Longrightarrow> in_flight g code = (if pending g code = None then 0 else 1)"
  by (simp add: balanced_def in_flight_def)

text \<open>An event on another country leaves this country's entry, record, count and replies.\<close>

lemma step_other:
  "event_code ev \<noteq> code \<Longrightarrow>
     pending (gw_step g ev) code = pending g code
     \<and> cleaned (gw_store (gw_step g ev)) code = cleaned (gw_store g) code
     \<and> count_list (extractor_calls (gw_step g ev)) code = count_list (extractor_calls g) code
     \<and> replies_for code (gw_step g ev) = replies_for code g"
  by (cases ev)
     (auto simp: get_def resolve_def load_def replies_for_def Let_def
           split: option.splits extraction.splits sum.splits)

lemma get_attach:
  "pending g code = Some ws \<Longrightarrow>
     pending (get code who force now g) code = Some (ws @ [who])
     \<and> cleaned (gw_store (get code who force now g)) code = cleaned (gw_store g) code
     \<and> extractor_calls (get code who force now g) = extractor_calls g
     \<and> replies_for code (get code who force now g) = replies_for code g"
  by (simp add: get_def replies_for_def)

lemma get_start:
  "pending g code = None \<Longrightarrow> \<not> fresh now (cleaned (gw_store g) code) \<Longrightarrow>
     pending (get code who force now g) code = Some [who]
     \<and> cleaned (gw_store (get code who force now g)) code = cleaned (gw_store g) code
     \<and> extractor_calls (get code who force now g) = extractor_calls g @ [code]
     \<and> replies_for code (get code who force now g) = replies_for code g"
  by (auto simp: get_def replies_for_def split: option.splits)

lemma attached_run:
  "pending g code = Some ws \<Longrightarrow> concurrent_gets code stored evs \<Longrightarrow>
     pending (gw_run g evs) code = Some (ws @ callers_of code evs)
     \<and> cleaned (gw_store (gw_run g evs)) code = cleaned (gw_store g) code
     \<and> count_list (extractor_calls (gw_run g evs)) code = count_list (extractor_calls g) code
     \<and> replies_for code (gw_run g evs) = replies_for code g"
proof (induction evs arbitrary: g ws)
  case Nil
  then show ?case
    by (simp add: gw_run_def)
next
  case (Cons ev evs)
  show ?case
  proof (cases "event_code ev = code")
    case True
    with Cons.prems(2) obtain who force now where ev: "ev = Get code who force now"
      by (cases ev) auto
    from Cons.prems(2) ev have rest: "concurrent_gets code stored evs"
      by simp
    note a = get_attach [OF Cons.prems(1), of who force now]
    from a have p: "pending (gw_step g ev) code = Some (ws @ [who])"
      by (simp add: ev)
    from Cons.IH [OF p rest] a show ?thesis
      by (simp add: ev gw_run_def)
  next
    case False
    note o = step_other [OF False, of g]
    from Cons.prems(2) have rest: "concurrent_gets code stored evs"
      by (cases ev) auto
    from o Cons.prems(1) have p: "pending (gw_step g ev) code = Some ws"
      by simp
    from False have c: "callers_of code (ev # evs) = callers_of code evs"
      by (cases ev) auto
    from Cons.IH [OF p rest] o c show ?thesis
      by (simp add: gw_run_def)
  qed
qed

lemma idle_run:
  "pending g code = None \<Longrightarrow> concurrent_gets code (cleaned (gw_store g) code) evs \<Longrightarrow>
     pending (gw_run g evs) code
       = (if callers_of code evs = [] then None else Some (callers_of code evs))
     \<and> cleaned (gw_store (gw_run g evs)) code = cleaned (gw_store g) code
     \<and> count_list (extractor_calls (gw_run g evs)) code
       = count_list (extractor_calls g) code + (if callers_of code evs = [] then 0 else 1)
     \<and> replies_for code (gw_run g evs) = replies_for code g"
proof (induction evs arbitrary: g)
  case Nil
  then show ?case
    by (simp add: gw_run_def)
next
  case (Cons ev evs)
  show ?case
  proof (cases "event_code ev = code")
    case True
    with Cons.prems(2) obtain who force now where ev: "ev = Get code who force now"
      by (cases ev) auto
    from Cons.prems(2) ev have stale: "\<not> fresh now (cleaned (gw_store g) code)"
      and rest: "concurrent_gets code (cleaned (gw_store g) code) evs"
      by simp_all
    note s = get_start [OF Cons.prems(1) stale, of who force]
    from s have p: "pending (gw_step g ev) code = Some [who]"
      by (simp add: ev)
    from attached_run [OF p rest] s show ?thesis
      by (simp add: ev gw_run_def)
  next
    case False
    note o = step_other [OF False, of g]
    from Cons.prems(2) have rest: "concurrent_gets code (cleaned (gw_store g) code) evs"
      by (cases ev) auto
    from o Cons.prems(1) have p: "pending (gw_step g ev) code = None"
      by simp
    from o rest have rest': "concurrent_gets code (cleaned (gw_store (gw_step g ev)) code) evs"
      by simp
    from False have c: "callers_of code (ev # evs) = callers_of code evs"
      by (cases ev) auto
    from Cons.IH [OF p rest'] o c show ?thesis
      by (simp add: gw_run_def)
  qed
qed

lemma resolve_replies:
  "pending g code = Some ws \<Longrightarrow>
     \<exists>out. replies_for code (resolve code result now g)
              = replies_for code g @ map (\<lambda>who. (who, out)) ws
       \<and> extractor_calls (resolve code result now g) = extractor_calls g
       \<and> pending (resolve code result now g) code = None"
  by (simp add: resolve_def replies_for_def Let_def comp_def)

lemma gw_run_snoc: "gw_run g (evs @ [ev]) = gw_step (gw_run g evs) ev"
  by (simp add: gw_run_def)

text \<open>
  C1, on the gateway modelled from the specification. After any sequence of calls and
  completions, for any countries, at most one extraction of a country is in flight. And when
  the callers of \<open>get(code)\<close> arrive while the country has no extraction in flight and no
  fresh record, with any calls and completions for other countries among them, then once the
  extraction comes back the Extractor has been invoked exactly once more for that country,
  and the callers, all of them and in order, have received one and the same outcome.
\<close>

theorem single_flight_per_country:
  "in_flight (gw_run (idle st) evs) code \<le> 1
   \<and> (pending g code = None \<and> concurrent_gets code (cleaned (gw_store g) code) evs'
        \<and> callers_of code evs' \<noteq> [] \<longrightarrow>
      count_list (extractor_calls (gw_run g (evs' @ [Resolve code result now]))) code
        = count_list (extractor_calls g) code + 1
      \<and> (\<exists>out. replies_for code (gw_run g (evs' @ [Resolve code result now]))
                 = replies_for code g @ map (\<lambda>who. (who, out)) (callers_of code evs')))"
proof (intro conjI impI)
  show "in_flight (gw_run (idle st) evs) code \<le> 1"
    using balanced_in_flight [OF balanced_run [OF balanced_idle], of st evs code] by simp
next
  assume h: "pending g code = None \<and> concurrent_gets code (cleaned (gw_store g) code) evs'
        \<and> callers_of code evs' \<noteq> []"
  note r = idle_run [of g code evs']
  from h r have p: "pending (gw_run g evs') code = Some (callers_of code evs')"
    by simp
  from resolve_replies [OF p, of result now] h r
  show "count_list (extractor_calls (gw_run g (evs' @ [Resolve code result now]))) code
        = count_list (extractor_calls g) code + 1"
    by (auto simp: gw_run_snoc)
  from resolve_replies [OF p, of result now] h r
  show "\<exists>out. replies_for code (gw_run g (evs' @ [Resolve code result now]))
                 = replies_for code g @ map (\<lambda>who. (who, out)) (callers_of code evs')"
    by (auto simp: gw_run_snoc)
qed

theorem single_flight_per_country_witness:
  "pending (idle stored_example) ''CRI'' = None
   \<and> concurrent_gets ''CRI'' (cleaned (gw_store (idle stored_example)) ''CRI'') burst
   \<and> callers_of ''CRI'' burst = [1, 2, 3]
   \<and> in_flight (gw_run (idle stored_example) burst) ''CRI'' \<le> 1
   \<and> count_list
        (extractor_calls (gw_run (idle stored_example) (burst @ [Resolve ''CRI'' UpstreamError 2003])))
        ''CRI'' = 1
   \<and> (\<exists>out. replies_for ''CRI''
               (gw_run (idle stored_example) (burst @ [Resolve ''CRI'' UpstreamError 2003]))
             = [(1, out), (2, out), (3, out)])"
proof -
  have h: "pending (idle stored_example) ''CRI'' = None
           \<and> concurrent_gets ''CRI'' (cleaned (gw_store (idle stored_example)) ''CRI'') burst
           \<and> callers_of ''CRI'' burst \<noteq> []"
    by (simp add: idle_def stored_example_def burst_def fresh_def TTL_def)
  have callers: "callers_of ''CRI'' burst = [1, 2, 3]"
    by (simp add: burst_def)
  have start: "extractor_calls (idle stored_example) = []"
    "replies_for ''CRI'' (idle stored_example) = []"
    by (simp_all add: idle_def replies_for_def)
  show ?thesis
    using h callers
      single_flight_per_country [of stored_example burst "''CRI''" "idle stored_example" burst
        UpstreamError 2003]
    by (simp add: start)
qed

end
